theory Spec2Isabelle
  imports Complex_Main "HOL-Library.Log_Nat"
begin

section \<open>JavaScript numbers\<close>

text \<open>
  The library computes on JavaScript numbers, which are IEEE 754 binary64 values. A number
  is modelled as a finite non-zero value or the positive zero carried by a real (\<open>Fin 0\<close>
  is the positive zero), the negative zero, one of the two infinities, or NaN. Every
  arithmetic operation computes the exact real result and rounds it to binary64, to
  nearest with ties to even, with overflow to an infinity and underflow through the
  subnormal numbers to a signed zero. The vectors and matrices that gl-matrix allocates
  are \<open>Float32Array\<close>s: every store into one of them rounds the stored number once more,
  to binary32.
\<close>

datatype number = Fin real | NegZero | PosInf | NegInf | NaN

fun isNaN :: "number \<Rightarrow> bool" where
  "isNaN NaN = True"
| "isNaN _ = False"

fun is_inf :: "number \<Rightarrow> bool" where
  "is_inf PosInf = True"
| "is_inf NegInf = True"
| "is_inf _ = False"

fun is_zero :: "number \<Rightarrow> bool" where
  "is_zero (Fin r) = (r = 0)"
| "is_zero NegZero = True"
| "is_zero _ = False"

fun is_fin :: "number \<Rightarrow> bool" where
  "is_fin (Fin r) = True"
| "is_fin NegZero = True"
| "is_fin _ = False"

text \<open>The sign bit of a number (of no meaning for NaN).\<close>

fun sign_bit :: "number \<Rightarrow> bool" where
  "sign_bit (Fin r) = (r < 0)"
| "sign_bit NegZero = True"
| "sign_bit NegInf = True"
| "sign_bit _ = False"

text \<open>The real value of a finite number; both zeros have the value 0.\<close>

fun rv :: "number \<Rightarrow> real" where
  "rv (Fin r) = r"
| "rv _ = 0"

definition signed_zero :: "bool \<Rightarrow> number" where
  "signed_zero s = (if s then NegZero else Fin 0)"

definition signed_inf :: "bool \<Rightarrow> number" where
  "signed_inf s = (if s then NegInf else PosInf)"


subsection \<open>Rounding\<close>

text \<open>\<open>two_pow k\<close> is \<open>2\<close> to the power of the integer \<open>k\<close>.\<close>

definition two_pow :: "int \<Rightarrow> real" where
  "two_pow k = (if 0 \<le> k then 2 ^ nat k else 1 / 2 ^ nat (- k))"

text \<open>
  The binary exponent of a non-zero real \<open>x\<close>: the integer \<open>k\<close> with
  \<open>2 ^ k \<le> \<bar>x\<bar> < 2 ^ (k + 1)\<close>, computed from the bit length of an integer.
\<close>

definition binade :: "real \<Rightarrow> int" where
  "binade x = (if 1 \<le> \<bar>x\<bar> then bitlen \<lfloor>\<bar>x\<bar>\<rfloor> - 1 else - bitlen (\<lceil>1 / \<bar>x\<bar>\<rceil> - 1))"

text \<open>Rounding of a real to the nearest integer, a tie going to the even one.\<close>

definition rte :: "real \<Rightarrow> int" where
  "rte y = (let f = \<lfloor>y\<rfloor>; d = y - of_int f
            in if d < 1 / 2 then f else if 1 / 2 < d then f + 1
               else if even f then f else f + 1)"

text \<open>
  Rounding of a real to a binary format of precision \<open>p\<close> whose smallest positive
  (subnormal) number is \<open>2 ^ emin\<close>, the exponent unbounded above: the result is the nearest
  multiple of the unit in the last place of \<open>x\<close>, which is \<open>2\<close> to the power
  \<open>max (binade x - (p - 1)) emin\<close>.
\<close>

definition round_to :: "nat \<Rightarrow> int \<Rightarrow> real \<Rightarrow> real" where
  "round_to p emin x =
     (if x = 0 then 0
      else let e = max (binade x - (int p - 1)) emin; u = two_pow e
           in of_int (rte (x / u)) * u)"

text \<open>
  The number that the exact result \<open>x\<close> of an operation becomes in the format: an
  infinity when the rounded magnitude reaches \<open>2 ^ emax\<close>, a zero of the sign of \<open>x\<close> when
  it rounds to zero. An exact result \<open>0\<close> is the positive zero; the operations below
  give the negative zero themselves where IEEE 754 asks for it.
\<close>

definition fl :: "nat \<Rightarrow> int \<Rightarrow> nat \<Rightarrow> real \<Rightarrow> number" where
  "fl p emin emax x =
     (let r = round_to p emin x
      in if 2 ^ emax \<le> \<bar>r\<bar> then signed_inf (x < 0)
         else if r = 0 then signed_zero (x < 0)
         else Fin r)"

text \<open>binary64, the format of a JavaScript number, and binary32, that of a \<open>Float32Array\<close>.\<close>

definition fl64 :: "real \<Rightarrow> number" where
  "fl64 = fl 53 (- 1074) 1024"

definition fl32 :: "real \<Rightarrow> number" where
  "fl32 = fl 24 (- 149) 128"

text \<open>\<open>Math.fround\<close>: what a number becomes when it is stored into a \<open>Float32Array\<close>.\<close>

fun fround :: "number \<Rightarrow> number" where
  "fround (Fin r) = fl32 r"
| "fround a = a"

text \<open>The numbers of the model that are binary64 values: rounding leaves them as they are.\<close>

fun double :: "number \<Rightarrow> bool" where
  "double (Fin r) = (fl64 r = Fin r)"
| "double _ = True"

subsection \<open>Arithmetic\<close>

fun js_neg :: "number \<Rightarrow> number" where
  "js_neg (Fin r) = (if r = 0 then NegZero else Fin (- r))"
| "js_neg NegZero = Fin 0"
| "js_neg PosInf = NegInf"
| "js_neg NegInf = PosInf"
| "js_neg NaN = NaN"

text \<open>
  \<open>a + b\<close>: the sum of two zeros is negative only when both are, and an exact sum \<open>0\<close> of
  two non-zero numbers is the positive zero.
\<close>

fun js_add :: "number \<Rightarrow> number \<Rightarrow> number" where
  "js_add NaN _ = NaN"
| "js_add _ NaN = NaN"
| "js_add PosInf NegInf = NaN"
| "js_add NegInf PosInf = NaN"
| "js_add PosInf _ = PosInf"
| "js_add _ PosInf = PosInf"
| "js_add NegInf _ = NegInf"
| "js_add _ NegInf = NegInf"
| "js_add NegZero NegZero = NegZero"
| "js_add NegZero (Fin b) = fl64 b"
| "js_add (Fin a) NegZero = fl64 a"
| "js_add (Fin a) (Fin b) = fl64 (a + b)"

text \<open>\<open>a - b\<close> is \<open>a + (-b)\<close>, also on the special values.\<close>

definition js_sub :: "number \<Rightarrow> number \<Rightarrow> number" where
  "js_sub a b = js_add a (js_neg b)"

text \<open>\<open>a * b\<close>: the sign of the result is the exclusive or of the operands' signs.\<close>

definition js_mul :: "number \<Rightarrow> number \<Rightarrow> number" where
  "js_mul a b =
     (if isNaN a \<or> isNaN b then NaN
      else if (is_inf a \<and> is_zero b) \<or> (is_zero a \<and> is_inf b) then NaN
      else if is_inf a \<or> is_inf b then signed_inf (sign_bit a \<noteq> sign_bit b)
      else if is_zero a \<or> is_zero b then signed_zero (sign_bit a \<noteq> sign_bit b)
      else fl64 (rv a * rv b))"

text \<open>\<open>a / b\<close>: a non-zero number divided by a zero is an infinity, \<open>0 / 0\<close> is NaN.\<close>

definition js_div :: "number \<Rightarrow> number \<Rightarrow> number" where
  "js_div a b =
     (if isNaN a \<or> isNaN b then NaN
      else if (is_inf a \<and> is_inf b) \<or> (is_zero a \<and> is_zero b) then NaN
      else if is_inf a \<or> is_zero b then signed_inf (sign_bit a \<noteq> sign_bit b)
      else if is_inf b \<or> is_zero a then signed_zero (sign_bit a \<noteq> sign_bit b)
      else fl64 (rv a / rv b))"

text \<open>The comparisons are false as soon as one operand is NaN; the two zeros are equal.\<close>

fun js_lt :: "number \<Rightarrow> number \<Rightarrow> bool" where
  "js_lt NaN _ = False"
| "js_lt _ NaN = False"
| "js_lt PosInf _ = False"
| "js_lt _ NegInf = False"
| "js_lt NegInf _ = True"
| "js_lt _ PosInf = True"
| "js_lt a b = (rv a < rv b)"

definition js_gt :: "number \<Rightarrow> number \<Rightarrow> bool" where
  "js_gt a b = js_lt b a"

definition js_le :: "number \<Rightarrow> number \<Rightarrow> bool" where
  "js_le a b = (\<not> isNaN a \<and> \<not> isNaN b \<and> \<not> js_lt b a)"

definition js_ge :: "number \<Rightarrow> number \<Rightarrow> bool" where
  "js_ge a b = js_le b a"

text \<open>\<open>a === b\<close> on numbers.\<close>

definition js_eq :: "number \<Rightarrow> number \<Rightarrow> bool" where
  "js_eq a b = (js_le a b \<and> js_le b a)"

text \<open>
  \<open>Math.max\<close> and \<open>Math.min\<close> of two numbers: NaN as soon as one argument is NaN, and
  the positive zero is larger than the negative one.
\<close>

definition Math_max :: "number \<Rightarrow> number \<Rightarrow> number" where
  "Math_max a b =
     (if isNaN a \<or> isNaN b then NaN
      else if js_lt a b then b
      else if js_lt b a then a
      else if is_zero a \<and> sign_bit a then b
      else a)"

definition Math_min :: "number \<Rightarrow> number \<Rightarrow> number" where
  "Math_min a b =
     (if isNaN a \<or> isNaN b then NaN
      else if js_lt a b then a
      else if js_lt b a then b
      else if is_zero a \<and> sign_bit a then a
      else b)"



section \<open>Vectors of gl-matrix\<close>

text \<open>
  The vector operations come from the gl-matrix library. Each takes its output vector
  as first argument and overwrites all of it from values read before, so here it
  returns the new value of the output. A \<open>vec3\<close> is three numbers. The output vectors are
  all made by \<open>vec3.create\<close>, which gives a \<open>Float32Array\<close>: each component is computed
  as a JavaScript number and rounded to single precision by the store. The vectors that
  the caller passes in may be plain arrays of numbers and are read as they are.
  \<open>vec3.dot\<close> returns a number and stores nothing.
\<close>

type_synonym vec3 = "number \<times> number \<times> number"


fun vec3_copy :: "vec3 \<Rightarrow> vec3" where
  "vec3_copy (a0, a1, a2) = (fround a0, fround a1, fround a2)"

fun vec3_add :: "vec3 \<Rightarrow> vec3 \<Rightarrow> vec3" where
  "vec3_add (a0, a1, a2) (b0, b1, b2) =
     (fround (js_add a0 b0), fround (js_add a1 b1), fround (js_add a2 b2))"

fun vec3_sub :: "vec3 \<Rightarrow> vec3 \<Rightarrow> vec3" where
  "vec3_sub (a0, a1, a2) (b0, b1, b2) =
     (fround (js_sub a0 b0), fround (js_sub a1 b1), fround (js_sub a2 b2))"

fun vec3_scale :: "vec3 \<Rightarrow> number \<Rightarrow> vec3" where
  "vec3_scale (a0, a1, a2) b = (fround (js_mul a0 b), fround (js_mul a1 b), fround (js_mul a2 b))"

fun vec3_dot :: "vec3 \<Rightarrow> vec3 \<Rightarrow> number" where
  "vec3_dot (a0, a1, a2) (b0, b1, b2) =
     js_add (js_add (js_mul a0 b0) (js_mul a1 b1)) (js_mul a2 b2)"

fun vec3_cross :: "vec3 \<Rightarrow> vec3 \<Rightarrow> vec3" where
  "vec3_cross (ax, ay, az) (bx, by, bz) =
     (fround (js_sub (js_mul ay bz) (js_mul az by)),
      fround (js_sub (js_mul az bx) (js_mul ax bz)),
      fround (js_sub (js_mul ax by) (js_mul ay bx)))"

section \<open>Ray against plane\<close>

text \<open>
  The result of an intersection test is \<open>None\<close> for \<open>null\<close> and \<open>Some (time, point)\<close>
  for the pair \<open>[time, intersectPoint]\<close>.
\<close>

definition intersectRayWithPlane ::
  "vec3 \<Rightarrow> vec3 \<Rightarrow> vec3 \<Rightarrow> vec3 \<Rightarrow> (number \<times> vec3) option" where
  "intersectRayWithPlane rayStart rayDirection planePos planeNormal =
     (let rayToPlaneDelta = vec3_sub planePos rayStart;
          wp = vec3_dot rayToPlaneDelta planeNormal;
          vp = vec3_dot rayDirection planeNormal;
          time = js_div wp vp
      in if js_ge time (Fin 0) then
           (let intersectPoint = vec3_scale rayDirection time;
                intersectPoint = vec3_add intersectPoint rayStart
            in Some (time, intersectPoint))
         else None)"

section \<open>Ray against triangle\<close>

text \<open>
  The loop over the three edges, from index \<open>i\<close> on. It returns \<open>null\<close> at the first
  edge whose test is negative and the pair of the plane intersection after the last one.
  The end vertex of the edge and the intersection point are first copied into
  \<open>Float32Array\<close>s, the start vertex is then subtracted from each.
\<close>

function triangleEdges ::
  "vec3 list \<Rightarrow> vec3 \<Rightarrow> number \<Rightarrow> vec3 \<Rightarrow> nat \<Rightarrow> (number \<times> vec3) option" where
  "triangleEdges verticesArr planeNormal rayTime intersectPoint i =
     (if i < length verticesArr then
        (let ii = (i + 1) mod 3;
             edge = vec3_copy (verticesArr ! ii);
             edge = vec3_sub edge (verticesArr ! i);
             intersectPointLength = vec3_copy intersectPoint;
             intersectPointLength = vec3_sub intersectPointLength (verticesArr ! i);
             crossProductEdgeIntersectPointLength = vec3_cross edge intersectPointLength
         in if js_lt (vec3_dot planeNormal crossProductEdgeIntersectPointLength) (Fin 0)
            then None
            else triangleEdges verticesArr planeNormal rayTime intersectPoint (i + 1))
      else Some (rayTime, intersectPoint))"
  by pat_completeness auto
termination
  by (relation "measure (\<lambda>(vs, n, t, p, i). length vs - i)") auto

definition intersectRayWithTriangle ::
  "vec3 \<Rightarrow> vec3 \<Rightarrow> vec3 \<times> vec3 \<times> vec3 \<Rightarrow> (number \<times> vec3) option" where
  "intersectRayWithTriangle rayStart rayDirection vertices =
     (case vertices of (v0, v1, v2) \<Rightarrow>
        (let verticesArr = [v0, v1, v2];
             edge0 = vec3_sub v1 v0;
             edge2 = vec3_sub v2 v0;
             planeNormal = vec3_cross edge0 edge2
         in case intersectRayWithPlane rayStart rayDirection v0 planeNormal of
              None \<Rightarrow> None
            | Some (rayTime, intersectPoint) \<Rightarrow>
                triangleEdges verticesArr planeNormal rayTime intersectPoint 0))"

section \<open>Ray against quad\<close>

definition intersectRayWithQuad ::
  "vec3 \<Rightarrow> vec3 \<Rightarrow> vec3 \<times> vec3 \<times> vec3 \<times> vec3 \<Rightarrow> (number \<times> vec3) option" where
  "intersectRayWithQuad rayStart rayDirection vertices =
     (case vertices of (v0, v1, v2, v3) \<Rightarrow>
        (let edge0 = vec3_sub v0 v1;
             edge1 = vec3_sub v2 v1;
             planeNormal = vec3_cross edge1 edge0
         in case intersectRayWithPlane rayStart rayDirection v0 planeNormal of
              None \<Rightarrow> None
            | Some (rayTime, intersectPoint) \<Rightarrow>
                (let edge0 = vec3_sub v1 v0;
                     plen = vec3_sub intersectPoint v0;
                     t = js_div (vec3_dot plen edge0) (vec3_dot edge0 edge0)
                 in if js_lt t (Fin 0) \<or> js_gt t (Fin 1) then None
                    else
                      (let edge1 = vec3_sub v2 v1;
                           plen = vec3_sub intersectPoint v1;
                           t = js_div (vec3_dot plen edge1) (vec3_dot edge1 edge1)
                       in if js_lt t (Fin 0) \<or> js_gt t (Fin 1) then None
                          else Some (rayTime, intersectPoint)))))"

section \<open>Ray against axis-aligned bounding box\<close>

record BoundingBox =
  min_box :: vec3
  max_box :: vec3

text \<open>
  \<open>v[i]\<close> on a three-component vector. The code reads the indices 0, 1 and 2 only; a
  read past the end gives \<open>undefined\<close>, which arithmetic turns into NaN.
\<close>

fun vec3_at :: "vec3 \<Rightarrow> nat \<Rightarrow> number" where
  "vec3_at (a0, a1, a2) i = (if i = 0 then a0 else if i = 1 then a1 else if i = 2 then a2 else NaN)"

definition intersectRayWithAABB :: "vec3 \<Rightarrow> vec3 \<Rightarrow> BoundingBox \<Rightarrow> number option" where
  "intersectRayWithAABB origin direction box =
     (let tMinX = js_div (js_sub (vec3_at (min_box box) 0) (vec3_at origin 0)) (vec3_at direction 0);
          tMaxX = js_div (js_sub (vec3_at (max_box box) 0) (vec3_at origin 0)) (vec3_at direction 0);
          tMinY = js_div (js_sub (vec3_at (min_box box) 1) (vec3_at origin 1)) (vec3_at direction 1);
          tMaxY = js_div (js_sub (vec3_at (max_box box) 1) (vec3_at origin 1)) (vec3_at direction 1);
          tMinZ = js_div (js_sub (vec3_at (min_box box) 2) (vec3_at origin 2)) (vec3_at direction 2);
          tMaxZ = js_div (js_sub (vec3_at (max_box box) 2) (vec3_at origin 2)) (vec3_at direction 2);
          tmin = Math_max (Math_max (Math_min tMinX tMaxX) (Math_min tMinY tMaxY))
                   (Math_min tMinZ tMaxZ);
          tmax = Math_min (Math_min (Math_max tMinX tMaxX) (Math_max tMinY tMaxY))
                   (Math_max tMinZ tMaxZ)
      in if js_lt tmax (Fin 0) then None
         else if js_gt tmin tmax then None
         else Some tmin)"

section \<open>Ray construction\<close>










record ProjectedMouse =
  rayStart :: vec3
  rayEnd :: vec3
  rayDirection :: vec3



section \<open>The quantities the specification names\<close>

text \<open>
  The sign test of one triangle edge from \<open>a\<close> to \<open>b\<close>, as the loop computes it: the dot
  product of the plane normal with the cross product of the edge vector \<open>b - a\<close> and the
  vector from \<open>a\<close> to the point.
\<close>

definition edgeTest :: "vec3 \<Rightarrow> vec3 \<Rightarrow> vec3 \<Rightarrow> vec3 \<Rightarrow> number" where
  "edgeTest planeNormal a b p =
     vec3_dot planeNormal (vec3_cross (vec3_sub (vec3_copy b) a) (vec3_sub (vec3_copy p) a))"

text \<open>
  The parameter of one quad edge: the projection of \<open>p - a\<close> onto the edge \<open>b - a\<close>,
  divided by the squared length of the edge.
\<close>

definition edgeParam :: "vec3 \<Rightarrow> vec3 \<Rightarrow> vec3 \<Rightarrow> number" where
  "edgeParam a b p =
     js_div (vec3_dot (vec3_sub p a) (vec3_sub b a)) (vec3_dot (vec3_sub b a) (vec3_sub b a))"

text \<open>The two quotients of the slab of axis \<open>i\<close>, their minimum and their maximum.\<close>

definition slabTMin :: "vec3 \<Rightarrow> vec3 \<Rightarrow> BoundingBox \<Rightarrow> nat \<Rightarrow> number" where
  "slabTMin origin direction box i =
     js_div (js_sub (vec3_at (min_box box) i) (vec3_at origin i)) (vec3_at direction i)"

definition slabTMax :: "vec3 \<Rightarrow> vec3 \<Rightarrow> BoundingBox \<Rightarrow> nat \<Rightarrow> number" where
  "slabTMax origin direction box i =
     js_div (js_sub (vec3_at (max_box box) i) (vec3_at origin i)) (vec3_at direction i)"

definition slabNear :: "vec3 \<Rightarrow> vec3 \<Rightarrow> BoundingBox \<Rightarrow> nat \<Rightarrow> number" where
  "slabNear origin direction box i =
     Math_min (slabTMin origin direction box i) (slabTMax origin direction box i)"

definition slabFar :: "vec3 \<Rightarrow> vec3 \<Rightarrow> BoundingBox \<Rightarrow> nat \<Rightarrow> number" where
  "slabFar origin direction box i =
     Math_max (slabTMin origin direction box i) (slabTMax origin direction box i)"

text \<open>
  The slab method as the specification words it, over a list of axes: \<open>tmin\<close> is the
  maximum over the axes of the slab minima, \<open>tmax\<close> the minimum over the axes of the slab
  maxima (a maximum starts from \<open>-Infinity\<close>, a minimum from \<open>Infinity\<close>); the result is
  no-hit when \<open>tmax < 0\<close> or \<open>tmin > tmax\<close>, and \<open>tmin\<close> otherwise.
\<close>

definition aabbOverAxes :: "nat list \<Rightarrow> vec3 \<Rightarrow> vec3 \<Rightarrow> BoundingBox \<Rightarrow> number option" where
  "aabbOverAxes axes origin direction box =
     (let tmin = foldl Math_max NegInf (map (slabNear origin direction box) axes);
          tmax = foldl Math_min PosInf (map (slabFar origin direction box) axes)
      in if js_lt tmax (Fin 0) \<or> js_gt tmin tmax then None else Some tmin)"

text \<open>A vector of finite numbers, that is a point or a direction of space.\<close>

fun fin3 :: "vec3 \<Rightarrow> bool" where
  "fin3 (a0, a1, a2) = (is_fin a0 \<and> is_fin a1 \<and> is_fin a2)"


text \<open>The numbers below zero and the numbers above zero, the infinities included.\<close>

fun is_neg :: "number \<Rightarrow> bool" where
  "is_neg (Fin r) = (r < 0)"
| "is_neg NegInf = True"
| "is_neg _ = False"

fun is_pos :: "number \<Rightarrow> bool" where
  "is_pos (Fin r) = (0 < r)"
| "is_pos PosInf = True"
| "is_pos _ = False"


text \<open>
  The values of vectors of finite numbers read in the reals: their dot product, the dot
  product of their absolute values, and the sum of the absolute values of the components.
\<close>

fun rdot :: "vec3 \<Rightarrow> vec3 \<Rightarrow> real" where
  "rdot (a0, a1, a2) (b0, b1, b2) = rv a0 * rv b0 + rv a1 * rv b1 + rv a2 * rv b2"

fun adot :: "vec3 \<Rightarrow> vec3 \<Rightarrow> real" where
  "adot (a0, a1, a2) (b0, b1, b2) = \<bar>rv a0 * rv b0\<bar> + \<bar>rv a1 * rv b1\<bar> + \<bar>rv a2 * rv b2\<bar>"

fun norm1 :: "vec3 \<Rightarrow> real" where
  "norm1 (a0, a1, a2) = \<bar>rv a0\<bar> + \<bar>rv a1\<bar> + \<bar>rv a2\<bar>"

section \<open>Rounding\<close>

text \<open>The binary exponent is the floor of the logarithm to base 2.\<close>

lemma two_pow_powr: "two_pow k = 2 powr (of_int k)"
  by (simp add: two_pow_def powr_int)

lemma two_pow_pos: "0 < two_pow k"
  by (simp add: two_pow_def)

lemma two_pow_add: "two_pow (j + k) = two_pow j * two_pow k"
  by (simp add: two_pow_powr powr_add)

lemma two_pow_mono: "j \<le> k \<Longrightarrow> two_pow j \<le> two_pow k"
  by (simp add: two_pow_powr)

lemma two_pow_less: "two_pow j < two_pow k \<Longrightarrow> j < k"
  by (simp add: two_pow_powr)

lemma two_pow_nat: "two_pow (int n) = 2 ^ n"
  by (simp add: two_pow_def)

lemma two_pow_int: "0 \<le> k \<Longrightarrow> two_pow k = of_int (2 ^ nat k)"
  by (simp add: two_pow_def)

lemma binade_log:
  assumes "x \<noteq> 0"
  shows "binade x = \<lfloor>log 2 \<bar>x\<bar>\<rfloor>"
proof (cases "1 \<le> \<bar>x\<bar>")
  case True
  define n where "n = \<lfloor>\<bar>x\<bar>\<rfloor>"
  have n1: "1 \<le> n" using True by (simp add: n_def le_floor_iff)
  define k where "k = bitlen n - 1"
  have b: "2 ^ nat k \<le> n \<and> n < 2 ^ nat (k + 1)"
    using bitlen_bounds [of n] n1 by (simp add: k_def)
  have k0: "0 \<le> k"
    using n1 by (simp add: k_def bitlen_alt_def)
  have lo: "2 powr (of_int k) \<le> \<bar>x\<bar>"
  proof -
    have "(2::real) powr (of_int k) = of_int (2 ^ nat k)"
      using k0 by (simp add: powr_int)
    also have "\<dots> \<le> of_int n" using b by (simp only: of_int_le_iff)
    also have "\<dots> \<le> \<bar>x\<bar>" by (simp add: n_def)
    finally show ?thesis .
  qed
  have hi: "\<bar>x\<bar> < 2 powr (of_int k + 1)"
  proof -
    have "n + 1 \<le> 2 ^ nat (k + 1)" using b by simp
    then have "(of_int (n + 1)::real) \<le> of_int (2 ^ nat (k + 1))"
      by (simp only: of_int_le_iff)
    moreover have "\<bar>x\<bar> < of_int (n + 1)" by (simp add: n_def)
    moreover have "(2::real) powr (of_int k + 1) = of_int (2 ^ nat (k + 1))"
      using k0 by (simp add: powr_int nat_add_distrib powr_add)
    ultimately show ?thesis by simp
  qed
  have "\<lfloor>log 2 \<bar>x\<bar>\<rfloor> = k"
    using lo hi assms by (subst floor_log_eq_powr_iff) simp_all
  then show ?thesis
    using True by (simp add: binade_def k_def n_def)
next
  case False
  define y where "y = 1 / \<bar>x\<bar>"
  have y1: "1 < y" using False assms by (simp add: y_def)
  define m where "m = \<lceil>y\<rceil> - 1"
  have m1: "1 \<le> m" using y1 by (simp add: m_def less_ceiling_iff)
  define k where "k = bitlen m"
  have b: "2 ^ nat (k - 1) \<le> m \<and> m < 2 ^ nat k"
    using bitlen_bounds [of m] m1 by (simp add: k_def)
  have k1: "1 \<le> k"
    using m1 by (simp add: k_def bitlen_alt_def)
  have my: "of_int m < y" "y \<le> of_int m + 1"
    by (simp_all add: m_def ceiling_correct less_ceiling_iff[symmetric])
  have hi: "y \<le> 2 powr (of_int k)"
  proof -
    have "m + 1 \<le> 2 ^ nat k" using b by simp
    then have "(of_int (m + 1)::real) \<le> of_int (2 ^ nat k)"
      by (simp only: of_int_le_iff)
    moreover have "(2::real) powr (of_int k) = of_int (2 ^ nat k)"
      using k1 by (simp add: powr_int)
    ultimately show ?thesis using my by simp
  qed
  have lo: "2 powr (of_int k - 1) < y"
  proof -
    have "(2::real) powr (of_int k - 1) = of_int (2 ^ nat (k - 1))"
      using k1 powr_int [of 2 "k - 1"] by simp
    also have "\<dots> \<le> of_int m" using b by (simp only: of_int_le_iff)
    finally show ?thesis using my by simp
  qed
  have xy: "\<bar>x\<bar> = 1 / y" using assms by (simp add: y_def)
  have "2 powr (- of_int k) \<le> \<bar>x\<bar>"
    using hi y1 by (simp add: xy powr_minus field_simps)
  moreover have "\<bar>x\<bar> < 2 powr (- of_int k + 1)"
  proof -
    define a where "a = (2::real) powr (of_int k - 1)"
    have a0: "0 < a" by (simp add: a_def)
    have "(2::real) powr (- of_int k + 1) = 1 / a"
      using powr_minus [of "2::real" "of_int k - 1"] by (simp add: a_def field_simps)
    moreover have "1 / y < 1 / a"
      using lo a0 y1 unfolding a_def [symmetric] by (simp add: field_simps)
    ultimately show ?thesis by (simp add: xy)
  qed
  ultimately have "\<lfloor>log 2 \<bar>x\<bar>\<rfloor> = - k"
    using assms by (subst floor_log_eq_powr_iff) simp_all
  then show ?thesis
    using False by (simp add: binade_def k_def m_def y_def)
qed


lemma binade_bounds:
  assumes "x \<noteq> 0"
  shows "two_pow (binade x) \<le> \<bar>x\<bar> \<and> \<bar>x\<bar> < two_pow (binade x + 1)"
proof -
  have "\<lfloor>log 2 \<bar>x\<bar>\<rfloor> = binade x" using binade_log [OF assms] by simp
  then have "2 powr (of_int (binade x)) \<le> \<bar>x\<bar> \<and> \<bar>x\<bar> < 2 powr (of_int (binade x + 1))"
    using assms by (subst (asm) floor_log_eq_powr_iff) simp_all
  then show ?thesis by (simp only: two_pow_powr)
qed


lemma rte_int: "rte (of_int n) = n"
  by (simp add: rte_def)

lemma rte_cases: "rte y = \<lfloor>y\<rfloor> \<or> rte y = \<lfloor>y\<rfloor> + 1"
  by (simp add: rte_def Let_def)

lemma rte_err: "\<bar>of_int (rte y) - y\<bar> \<le> 1 / 2"
proof -
  have "of_int \<lfloor>y\<rfloor> \<le> y" "y < of_int \<lfloor>y\<rfloor> + 1" by linarith+
  then show ?thesis
    by (auto simp add: rte_def Let_def)
qed

lemma rte_ge: "of_int n \<le> y \<Longrightarrow> n \<le> rte y"
proof -
  assume "of_int n \<le> y"
  then have "n \<le> \<lfloor>y\<rfloor>" by (simp add: le_floor_iff)
  then show ?thesis using rte_cases [of y] by auto
qed

lemma rte_le: "y \<le> of_int n \<Longrightarrow> rte y \<le> n"
proof -
  assume h: "y \<le> of_int n"
  show ?thesis
  proof (cases "y = of_int n")
    case True then show ?thesis by (simp add: rte_int)
  next
    case False
    then have "y < of_int n" using h by simp
    then have "\<lfloor>y\<rfloor> < n" by (simp add: floor_less_iff)
    then show ?thesis using rte_cases [of y] by auto
  qed
qed

lemma round_to_unit:
  assumes "x \<noteq> 0"
  shows "round_to p emin x =
     of_int (rte (x / two_pow (max (binade x - (int p - 1)) emin)))
       * two_pow (max (binade x - (int p - 1)) emin)"
  using assms by (simp add: round_to_def Let_def)

lemma round_to_0: "round_to p emin 0 = 0"
  by (simp add: round_to_def)

lemma round_to_exact:
  assumes m: "\<bar>m\<bar> < 2 ^ p" and k: "emin \<le> k"
  shows "round_to p emin (of_int m * two_pow k) = of_int m * two_pow k"
proof (cases "m = 0")
  case True then show ?thesis by (simp add: round_to_0)
next
  case False
  define x where "x = of_int m * two_pow k"
  have x0: "x \<noteq> 0" using False two_pow_pos [of k] by (simp add: x_def)
  define e where "e = max (binade x - (int p - 1)) emin"
  have "\<bar>x\<bar> = of_int \<bar>m\<bar> * two_pow k"
    using two_pow_pos [of k] by (simp add: x_def abs_mult)
  also have "\<dots> < of_int (2 ^ p) * two_pow k"
    using m two_pow_pos [of k] by (simp only: mult_less_cancel_right_pos of_int_less_iff)
  also have "\<dots> = two_pow (int p + k)"
    by (simp add: two_pow_add two_pow_nat)
  finally have "two_pow (binade x) < two_pow (int p + k)"
    using binade_bounds [OF x0] by linarith
  then have "binade x < int p + k" by (rule two_pow_less)
  then have ek: "e \<le> k" using k by (simp add: e_def)
  have "x / two_pow e = of_int m * two_pow (k - e)"
    using two_pow_add [of "k - e" e] two_pow_pos [of e] by (simp add: x_def)
  also have "\<dots> = of_int (m * 2 ^ nat (k - e))"
    using ek by (simp add: two_pow_int)
  finally have "of_int (rte (x / two_pow e)) * two_pow e = x / two_pow e * two_pow e"
    by (simp only: rte_int)
  also have "\<dots> = x" using two_pow_pos [of e] by simp
  finally show ?thesis
    unfolding x_def [symmetric] using round_to_unit [OF x0, of p emin] by (simp add: e_def)
qed

lemma rte_minus: "rte (- y) = - rte y"
proof (cases "y = of_int \<lfloor>y\<rfloor>")
  case True
  then obtain n where "y = of_int n" ..
  then show ?thesis using rte_int [of n] rte_int [of "- n"] by simp
next
  case False
  have b: "of_int \<lfloor>y\<rfloor> \<le> y" "y < of_int \<lfloor>y\<rfloor> + 1" by linarith+
  have f: "\<lfloor>- y\<rfloor> = - \<lfloor>y\<rfloor> - 1"
  proof (rule floor_unique)
    show "of_int (- \<lfloor>y\<rfloor> - 1) \<le> - y"
      unfolding of_int_diff of_int_minus of_int_1 using b by linarith
    show "- y < of_int (- \<lfloor>y\<rfloor> - 1) + 1"
      unfolding of_int_diff of_int_minus of_int_1 using b False by linarith
  qed
  show ?thesis
    unfolding rte_def Let_def f by auto
qed

lemma binade_minus: "binade (- x) = binade x"
  by (simp add: binade_def)

lemma round_to_minus: "round_to p emin (- x) = - round_to p emin x"
  by (simp add: round_to_def Let_def binade_minus rte_minus)

lemma unit_le:
  assumes "1 \<le> p" and "two_pow emin \<le> \<bar>x\<bar>"
  shows "two_pow (max (binade x - (int p - 1)) emin) \<le> \<bar>x\<bar>"
proof -
  have x: "x \<noteq> 0" using assms(2) two_pow_pos [of emin] by auto
  have "two_pow (binade x - (int p - 1)) \<le> two_pow (binade x)"
    using assms(1) by (intro two_pow_mono) simp
  then have "two_pow (binade x - (int p - 1)) \<le> \<bar>x\<bar>"
    using binade_bounds [OF x] by linarith
  then show ?thesis using assms(2) by (simp add: max_def)
qed

lemma round_to_pos:
  assumes p: "1 \<le> p" and x: "two_pow emin \<le> x"
  shows "two_pow emin \<le> round_to p emin x"
proof -
  define e where "e = max (binade x - (int p - 1)) emin"
  have x0: "0 < x" using x two_pow_pos [of emin] by linarith
  have "two_pow e \<le> \<bar>x\<bar>" unfolding e_def using p x x0 by (intro unit_le) simp_all
  then have "1 \<le> x / two_pow e" using two_pow_pos [of e] x0 by (simp add: field_simps)
  then have "1 \<le> rte (x / two_pow e)" by (intro rte_ge) simp
  then have "(1::real) \<le> of_int (rte (x / two_pow e))" by simp
  then have "two_pow e \<le> of_int (rte (x / two_pow e)) * two_pow e"
    using two_pow_pos [of e] by (simp add: field_simps)
  moreover have "two_pow emin \<le> two_pow e" by (intro two_pow_mono) (simp add: e_def)
  moreover have "round_to p emin x = of_int (rte (x / two_pow e)) * two_pow e"
    using x0 by (simp add: round_to_def Let_def e_def)
  ultimately show ?thesis by linarith
qed

lemma round_to_neg:
  assumes p: "1 \<le> p" and x: "x \<le> - two_pow emin"
  shows "round_to p emin x \<le> - two_pow emin"
  using round_to_pos [OF p, of emin "- x"] x by (simp add: round_to_minus)


lemma round_to_err:
  "\<bar>round_to p emin x - x\<bar> \<le> two_pow (max (binade x - (int p - 1)) emin) / 2"
proof (cases "x = 0")
  case True then show ?thesis using two_pow_pos [of "max (binade x - (int p - 1)) emin"]
    by (simp add: round_to_0)
next
  case False
  define e where "e = max (binade x - (int p - 1)) emin"
  define u where "u = two_pow e"
  have u: "0 < u" by (simp add: u_def two_pow_pos)
  have "round_to p emin x - x = (of_int (rte (x / u)) - x / u) * u"
    using False u by (simp add: round_to_def Let_def e_def u_def field_simps)
  then have "\<bar>round_to p emin x - x\<bar> = \<bar>of_int (rte (x / u)) - x / u\<bar> * u"
    using u by (simp add: abs_mult)
  also have "\<dots> \<le> 1 / 2 * u"
    using rte_err [of "x / u"] u by (intro mult_right_mono) simp_all
  finally show ?thesis by (simp add: u_def e_def)
qed

text \<open>
  A real that fits the precision and the exponent range is a number of the format:
  rounding leaves it as it is.
\<close>

lemma fl_exact:
  assumes "\<bar>m\<bar> < 2 ^ p" and "emin \<le> k" and "\<bar>of_int m * two_pow k\<bar> < 2 ^ emax"
  shows "fl p emin emax (of_int m * two_pow k) = Fin (of_int m * two_pow k)"
  using assms two_pow_pos [of k]
  by (auto simp add: fl_def round_to_exact signed_zero_def Let_def)

lemma fl_int:
  assumes "\<bar>m\<bar> < 2 ^ p" and "emin \<le> 0" and "p \<le> emax"
  shows "fl p emin emax (of_int m) = Fin (of_int m)"
proof -
  have "\<bar>real_of_int m\<bar> < 2 ^ p"
    using assms(1) by (metis of_int_abs of_int_less_iff of_int_numeral of_int_power)
  also have "(2::real) ^ p \<le> 2 ^ emax" using assms(3) by simp
  finally show ?thesis
    using fl_exact [of m p emin 0 emax] assms by (simp add: two_pow_def)
qed

lemma fl64_int: "\<bar>m\<bar> < 9007199254740992 \<Longrightarrow> fl64 (of_int m) = Fin (of_int m)"
  unfolding fl64_def by (rule fl_int) simp_all

lemma fl32_int: "\<bar>m\<bar> < 16777216 \<Longrightarrow> fl32 (of_int m) = Fin (of_int m)"
  unfolding fl32_def by (rule fl_int) simp_all

lemma fl64_numeral [simp]:
  "(numeral w :: int) < 9007199254740992 \<Longrightarrow> fl64 (numeral w) = Fin (numeral w)"
  "(numeral w :: int) < 9007199254740992 \<Longrightarrow> fl64 (- numeral w) = Fin (- numeral w)"
  "fl64 0 = Fin 0" "fl64 1 = Fin 1" "fl64 (- 1) = Fin (- 1)"
  using fl64_int [of "numeral w"] fl64_int [of "- numeral w"] fl64_int [of 0] fl64_int [of 1]
    fl64_int [of "- 1"] by simp_all

lemma fl32_numeral [simp]:
  "(numeral w :: int) < 16777216 \<Longrightarrow> fl32 (numeral w) = Fin (numeral w)"
  "(numeral w :: int) < 16777216 \<Longrightarrow> fl32 (- numeral w) = Fin (- numeral w)"
  "fl32 0 = Fin 0" "fl32 1 = Fin 1" "fl32 (- 1) = Fin (- 1)"
  using fl32_int [of "numeral w"] fl32_int [of "- numeral w"] fl32_int [of 0] fl32_int [of 1]
    fl32_int [of "- 1"] by simp_all

lemma fl_half:
  "fl64 (1 / 2) = Fin (1 / 2)" "fl64 (- (1 / 2)) = Fin (- (1 / 2))"
  "fl32 (1 / 2) = Fin (1 / 2)" "fl32 (- (1 / 2)) = Fin (- (1 / 2))"
  using fl_exact [of 1 53 "- 1074" "- 1" 1024] fl_exact [of "- 1" 53 "- 1074" "- 1" 1024]
    fl_exact [of 1 24 "- 149" "- 1" 128] fl_exact [of "- 1" 24 "- 149" "- 1" 128]
  by (simp_all add: fl64_def fl32_def two_pow_def)

section \<open>Arithmetic of the number model\<close>

lemmas js_eval = js_sub_def js_mul_def js_div_def js_gt_def js_le_def js_ge_def js_eq_def
  Math_max_def Math_min_def signed_zero_def signed_inf_def

declare triangleEdges.simps [simp del]

lemma js_add_commute: "js_add a b = js_add b a"
  by (cases a; cases b) (simp_all add: add.commute)

lemma vec3_add_commute: "vec3_add a b = vec3_add b a"
  by (cases a; cases b) (simp add: js_add_commute)

lemma js_ge_not_lt: "js_ge a b \<Longrightarrow> \<not> js_lt a b"
  by (cases a; cases b) (auto simp: js_ge_def js_le_def)

lemma js_le_not_gt: "js_le a b \<Longrightarrow> \<not> js_gt a b"
  by (simp add: js_le_def js_gt_def)

lemma Math_max_NegInf: "Math_max NegInf a = a"
  by (cases a) (simp_all add: Math_max_def)

lemma Math_min_PosInf: "Math_min PosInf a = a"
  by (cases a) (simp_all add: Math_min_def)

lemma Math_max_NegInf_right: "Math_max a NegInf = a"
  by (cases a) (simp_all add: Math_max_def)

lemma Math_min_PosInf_right: "Math_min a PosInf = a"
  by (cases a) (simp_all add: Math_min_def)

lemma vec3_at_all: "(vec3_at p 0, vec3_at p (Suc 0), vec3_at p 2) = p"
  by (cases p) simp

section \<open>Plane intersection\<close>

text \<open>
  C1. For every \<open>rayStart\<close>, \<open>rayDirection\<close>, \<open>planePos\<close> and \<open>planeNormal\<close>,
  \<open>intersectRayWithPlane\<close> computes
  \<open>time = dot(planePos - rayStart, planeNormal) / dot(rayDirection, planeNormal)\<close>;
  if \<open>time >= 0\<close> it returns the pair \<open>(time, rayStart + rayDirection * time)\<close>, and
  otherwise it returns no-hit. The difference, the product and the sum of vectors are
  those of gl-matrix, rounded to single precision; the dot products and the quotient are
  numbers. The sum is commutative also after rounding, so that \<open>rayStart + rayDirection * time\<close>
  is the \<open>rayDirection * time + rayStart\<close> of the code.
\<close>

theorem intersectRayWithPlane_computes:
  "intersectRayWithPlane rs rd planePos planeNormal =
     (let time = js_div (vec3_dot (vec3_sub planePos rs) planeNormal)
                   (vec3_dot rd planeNormal)
      in if js_ge time (Fin 0)
         then Some (time, vec3_add rs (vec3_scale rd time))
         else None)"
  by (simp add: intersectRayWithPlane_def Let_def vec3_add_commute)

theorem intersectRayWithPlane_computes_witness:
  "intersectRayWithPlane (Fin 0, Fin 0, Fin 2) (Fin 0, Fin 0, Fin (- 1))
       (Fin 0, Fin 0, Fin 0) (Fin 0, Fin 0, Fin 1)
     = Some (Fin 2, (Fin 0, Fin 0, Fin 0))
   \<and> intersectRayWithPlane (Fin 0, Fin 0, Fin 2) (Fin 0, Fin 0, Fin 1)
       (Fin 0, Fin 0, Fin 0) (Fin 0, Fin 0, Fin 1)
     = None"
  using intersectRayWithPlane_computes
      [of "(Fin 0, Fin 0, Fin 2)" "(Fin 0, Fin 0, Fin (- 1))"
          "(Fin 0, Fin 0, Fin 0)" "(Fin 0, Fin 0, Fin 1)"]
    intersectRayWithPlane_computes
      [of "(Fin 0, Fin 0, Fin 2)" "(Fin 0, Fin 0, Fin 1)"
          "(Fin 0, Fin 0, Fin 0)" "(Fin 0, Fin 0, Fin 1)"]
  by (simp add: js_eval)

text \<open>
  C8. \<open>intersectRayWithPlane\<close> is to return no-hit when the ray is parallel to the plane
  (\<open>dot(rayDirection, planeNormal) == 0\<close>) as it does when the intersection lies behind
  the ray origin. The code does not: for the ray from the origin along the x axis and the
  plane \<open>z = 1\<close>, to which the ray is parallel, the quotient is \<open>1 / 0 = Infinity\<close>, the test
  \<open>time >= 0\<close> holds, and the result is the pair of \<open>Infinity\<close> and the point
  \<open>(Infinity, NaN, NaN)\<close>.
\<close>

theorem intersectRayWithPlane_parallel_hit:
  "vec3_dot (Fin 1, Fin 0, Fin 0) (Fin 0, Fin 0, Fin 1) = Fin 0
   \<and> intersectRayWithPlane (Fin 0, Fin 0, Fin 0) (Fin 1, Fin 0, Fin 0)
        (Fin 0, Fin 0, Fin 1) (Fin 0, Fin 0, Fin 1)
      = Some (PosInf, (PosInf, NaN, NaN))"
  by (simp add: intersectRayWithPlane_def js_eval)

section \<open>Triangle intersection\<close>

lemma triangleEdges_unroll:
  "triangleEdges [v0, v1, v2] n t p 0 =
     (if js_lt (edgeTest n v0 v1 p) (Fin 0) \<or> js_lt (edgeTest n v1 v2 p) (Fin 0)
         \<or> js_lt (edgeTest n v2 v0 p) (Fin 0)
      then None else Some (t, p))"
proof -
  have e3: "triangleEdges [v0, v1, v2] n t p (Suc (Suc (Suc 0))) = Some (t, p)"
    by (subst triangleEdges.simps) simp
  have e2: "triangleEdges [v0, v1, v2] n t p (Suc (Suc 0)) =
      (if js_lt (edgeTest n v2 v0 p) (Fin 0) then None else Some (t, p))"
    by (subst triangleEdges.simps) (simp add: edgeTest_def Let_def e3)
  have e1: "triangleEdges [v0, v1, v2] n t p (Suc 0) =
      (if js_lt (edgeTest n v1 v2 p) (Fin 0) then None
       else triangleEdges [v0, v1, v2] n t p (Suc (Suc 0)))"
    by (subst triangleEdges.simps) (simp add: edgeTest_def Let_def)
  have e0: "triangleEdges [v0, v1, v2] n t p 0 =
      (if js_lt (edgeTest n v0 v1 p) (Fin 0) then None
       else triangleEdges [v0, v1, v2] n t p (Suc 0))"
    by (subst triangleEdges.simps) (simp add: edgeTest_def Let_def)
  show ?thesis
    by (simp add: e0 e1 e2)
qed

lemma intersectRayWithTriangle_unfold:
  "intersectRayWithTriangle rs rd (v0, v1, v2) =
     (case intersectRayWithPlane rs rd v0 (vec3_cross (vec3_sub v1 v0) (vec3_sub v2 v0)) of
        None \<Rightarrow> None
      | Some (time, point) \<Rightarrow>
          if js_lt (edgeTest (vec3_cross (vec3_sub v1 v0) (vec3_sub v2 v0)) v0 v1 point) (Fin 0)
             \<or> js_lt (edgeTest (vec3_cross (vec3_sub v1 v0) (vec3_sub v2 v0)) v1 v2 point) (Fin 0)
             \<or> js_lt (edgeTest (vec3_cross (vec3_sub v1 v0) (vec3_sub v2 v0)) v2 v0 point) (Fin 0)
          then None
          else Some (time, point))"
  by (simp add: intersectRayWithTriangle_def Let_def triangleEdges_unroll split: option.split)

text \<open>
  C2. \<open>intersectRayWithTriangle\<close> first intersects the ray with the plane through \<open>v0\<close>
  with normal \<open>cross(v1 - v0, v2 - v0)\<close>. Without a plane hit it returns no-hit.
  Otherwise it returns no-hit if the edge test is negative for one of the three wrapping
  edges \<open>v0 -> v1\<close>, \<open>v1 -> v2\<close>, \<open>v2 -> v0\<close>, and the pair of the plane intersection,
  unchanged, if not; in particular it returns that pair when all three edge tests are
  non-negative. The edge test is the number that the loop computes, from vectors rounded
  to single precision.
\<close>

theorem intersectRayWithTriangle_edges:
  "intersectRayWithTriangle rs rd (v0, v1, v2) =
     (let planeNormal = vec3_cross (vec3_sub v1 v0) (vec3_sub v2 v0)
      in case intersectRayWithPlane rs rd v0 planeNormal of
           None \<Rightarrow> None
         | Some (time, point) \<Rightarrow>
             if js_lt (edgeTest planeNormal v0 v1 point) (Fin 0)
                \<or> js_lt (edgeTest planeNormal v1 v2 point) (Fin 0)
                \<or> js_lt (edgeTest planeNormal v2 v0 point) (Fin 0)
             then None
             else Some (time, point))
   \<and> (\<forall>time point.
        intersectRayWithPlane rs rd v0 (vec3_cross (vec3_sub v1 v0) (vec3_sub v2 v0))
          = Some (time, point)
        \<and> js_ge (edgeTest (vec3_cross (vec3_sub v1 v0) (vec3_sub v2 v0)) v0 v1 point) (Fin 0)
        \<and> js_ge (edgeTest (vec3_cross (vec3_sub v1 v0) (vec3_sub v2 v0)) v1 v2 point) (Fin 0)
        \<and> js_ge (edgeTest (vec3_cross (vec3_sub v1 v0) (vec3_sub v2 v0)) v2 v0 point) (Fin 0)
        \<longrightarrow> intersectRayWithTriangle rs rd (v0, v1, v2) = Some (time, point))"
proof (intro conjI allI impI)
  show "intersectRayWithTriangle rs rd (v0, v1, v2) =
     (let planeNormal = vec3_cross (vec3_sub v1 v0) (vec3_sub v2 v0)
      in case intersectRayWithPlane rs rd v0 planeNormal of
           None \<Rightarrow> None
         | Some (time, point) \<Rightarrow>
             if js_lt (edgeTest planeNormal v0 v1 point) (Fin 0)
                \<or> js_lt (edgeTest planeNormal v1 v2 point) (Fin 0)
                \<or> js_lt (edgeTest planeNormal v2 v0 point) (Fin 0)
             then None
             else Some (time, point))"
    unfolding Let_def by (rule intersectRayWithTriangle_unfold)
next
  fix time point
  assume "intersectRayWithPlane rs rd v0 (vec3_cross (vec3_sub v1 v0) (vec3_sub v2 v0))
          = Some (time, point)
        \<and> js_ge (edgeTest (vec3_cross (vec3_sub v1 v0) (vec3_sub v2 v0)) v0 v1 point) (Fin 0)
        \<and> js_ge (edgeTest (vec3_cross (vec3_sub v1 v0) (vec3_sub v2 v0)) v1 v2 point) (Fin 0)
        \<and> js_ge (edgeTest (vec3_cross (vec3_sub v1 v0) (vec3_sub v2 v0)) v2 v0 point) (Fin 0)"
  then show "intersectRayWithTriangle rs rd (v0, v1, v2) = Some (time, point)"
    by (simp add: intersectRayWithTriangle_unfold js_ge_not_lt)
qed

theorem intersectRayWithTriangle_edges_witness:
  "intersectRayWithPlane (Fin 1, Fin 1, Fin 1) (Fin 0, Fin 0, Fin (- 1)) (Fin 0, Fin 0, Fin 0)
       (vec3_cross (vec3_sub (Fin 4, Fin 0, Fin 0) (Fin 0, Fin 0, Fin 0))
                        (vec3_sub (Fin 0, Fin 4, Fin 0) (Fin 0, Fin 0, Fin 0)))
     = Some (Fin 1, (Fin 1, Fin 1, Fin 0))
   \<and> js_ge (edgeTest (vec3_cross (vec3_sub (Fin 4, Fin 0, Fin 0) (Fin 0, Fin 0, Fin 0))
                        (vec3_sub (Fin 0, Fin 4, Fin 0) (Fin 0, Fin 0, Fin 0)))
              (Fin 0, Fin 0, Fin 0) (Fin 4, Fin 0, Fin 0) (Fin 1, Fin 1, Fin 0)) (Fin 0)
   \<and> js_ge (edgeTest (vec3_cross (vec3_sub (Fin 4, Fin 0, Fin 0) (Fin 0, Fin 0, Fin 0))
                        (vec3_sub (Fin 0, Fin 4, Fin 0) (Fin 0, Fin 0, Fin 0)))
              (Fin 4, Fin 0, Fin 0) (Fin 0, Fin 4, Fin 0) (Fin 1, Fin 1, Fin 0)) (Fin 0)
   \<and> js_ge (edgeTest (vec3_cross (vec3_sub (Fin 4, Fin 0, Fin 0) (Fin 0, Fin 0, Fin 0))
                        (vec3_sub (Fin 0, Fin 4, Fin 0) (Fin 0, Fin 0, Fin 0)))
              (Fin 0, Fin 4, Fin 0) (Fin 0, Fin 0, Fin 0) (Fin 1, Fin 1, Fin 0)) (Fin 0)
   \<and> intersectRayWithTriangle (Fin 1, Fin 1, Fin 1) (Fin 0, Fin 0, Fin (- 1))
       ((Fin 0, Fin 0, Fin 0), (Fin 4, Fin 0, Fin 0), (Fin 0, Fin 4, Fin 0))
     = Some (Fin 1, (Fin 1, Fin 1, Fin 0))"
proof -
  have h: "intersectRayWithPlane (Fin 1, Fin 1, Fin 1) (Fin 0, Fin 0, Fin (- 1)) (Fin 0, Fin 0, Fin 0)
       (vec3_cross (vec3_sub (Fin 4, Fin 0, Fin 0) (Fin 0, Fin 0, Fin 0))
                        (vec3_sub (Fin 0, Fin 4, Fin 0) (Fin 0, Fin 0, Fin 0)))
     = Some (Fin 1, (Fin 1, Fin 1, Fin 0))
   \<and> js_ge (edgeTest (vec3_cross (vec3_sub (Fin 4, Fin 0, Fin 0) (Fin 0, Fin 0, Fin 0))
                        (vec3_sub (Fin 0, Fin 4, Fin 0) (Fin 0, Fin 0, Fin 0)))
              (Fin 0, Fin 0, Fin 0) (Fin 4, Fin 0, Fin 0) (Fin 1, Fin 1, Fin 0)) (Fin 0)
   \<and> js_ge (edgeTest (vec3_cross (vec3_sub (Fin 4, Fin 0, Fin 0) (Fin 0, Fin 0, Fin 0))
                        (vec3_sub (Fin 0, Fin 4, Fin 0) (Fin 0, Fin 0, Fin 0)))
              (Fin 4, Fin 0, Fin 0) (Fin 0, Fin 4, Fin 0) (Fin 1, Fin 1, Fin 0)) (Fin 0)
   \<and> js_ge (edgeTest (vec3_cross (vec3_sub (Fin 4, Fin 0, Fin 0) (Fin 0, Fin 0, Fin 0))
                        (vec3_sub (Fin 0, Fin 4, Fin 0) (Fin 0, Fin 0, Fin 0)))
              (Fin 0, Fin 4, Fin 0) (Fin 0, Fin 0, Fin 0) (Fin 1, Fin 1, Fin 0)) (Fin 0)"
    by (simp add: intersectRayWithPlane_def edgeTest_def js_eval Let_def)
  have "intersectRayWithTriangle (Fin 1, Fin 1, Fin 1) (Fin 0, Fin 0, Fin (- 1))
       ((Fin 0, Fin 0, Fin 0), (Fin 4, Fin 0, Fin 0), (Fin 0, Fin 4, Fin 0))
     = Some (Fin 1, (Fin 1, Fin 1, Fin 0))"
    using intersectRayWithTriangle_edges
      [of "(Fin 1, Fin 1, Fin 1)" "(Fin 0, Fin 0, Fin (- 1))"
          "(Fin 0, Fin 0, Fin 0)" "(Fin 4, Fin 0, Fin 0)" "(Fin 0, Fin 4, Fin 0)"] h
    by blast
  with h show ?thesis by blast
qed

text \<open>
  C7. Reversing the order of the vertices of the triangle is to leave the result of
  \<open>intersectRayWithTriangle\<close> unchanged. The code does not for a ray parallel to the plane
  of the triangle: for the triangle \<open>(0,0,0), (1,0,0), (0,1,0)\<close> and the ray from
  \<open>(0,0,1)\<close> along the x axis the result is no-hit, and for the same vertices in reverse
  order it is the pair of \<open>Infinity\<close> and the point \<open>(Infinity, NaN, NaN)\<close>.
\<close>

theorem intersectRayWithTriangle_reversed_differs:
  "intersectRayWithTriangle (Fin 0, Fin 0, Fin 1) (Fin 1, Fin 0, Fin 0)
       ((Fin 0, Fin 0, Fin 0), (Fin 1, Fin 0, Fin 0), (Fin 0, Fin 1, Fin 0))
     = None
   \<and> intersectRayWithTriangle (Fin 0, Fin 0, Fin 1) (Fin 1, Fin 0, Fin 0)
       ((Fin 0, Fin 1, Fin 0), (Fin 1, Fin 0, Fin 0), (Fin 0, Fin 0, Fin 0))
     = Some (PosInf, (PosInf, NaN, NaN))"
  by (simp add: intersectRayWithTriangle_unfold intersectRayWithPlane_def edgeTest_def js_eval)

section \<open>Quad intersection\<close>

text \<open>
  C3. \<open>intersectRayWithQuad\<close> derives the plane normal as \<open>cross(v2 - v1, v0 - v1)\<close> and
  intersects the ray with the plane through \<open>v0\<close>. On a plane hit it computes
  \<open>t1 = dot(point - v0, v1 - v0) / dot(v1 - v0, v1 - v0)\<close> and returns no-hit if
  \<open>t1 < 0\<close> or \<open>t1 > 1\<close>, then computes
  \<open>t2 = dot(point - v1, v2 - v1) / dot(v2 - v1, v2 - v1)\<close> and returns no-hit if
  \<open>t2 < 0\<close> or \<open>t2 > 1\<close>; if both parameters lie in [0, 1] it returns the pair of the
  plane intersection. The differences and the cross product are vectors rounded to single
  precision; the dot products and the quotients are numbers.
\<close>

theorem intersectRayWithQuad_params:
  "intersectRayWithQuad rs rd (v0, v1, v2, v3) =
     (case intersectRayWithPlane rs rd v0 (vec3_cross (vec3_sub v2 v1) (vec3_sub v0 v1)) of
        None \<Rightarrow> None
      | Some (time, point) \<Rightarrow>
          if js_lt (edgeParam v0 v1 point) (Fin 0) \<or> js_gt (edgeParam v0 v1 point) (Fin 1)
          then None
          else if js_lt (edgeParam v1 v2 point) (Fin 0) \<or> js_gt (edgeParam v1 v2 point) (Fin 1)
          then None
          else Some (time, point))
   \<and> (\<forall>time point.
        intersectRayWithPlane rs rd v0 (vec3_cross (vec3_sub v2 v1) (vec3_sub v0 v1))
          = Some (time, point)
        \<and> js_ge (edgeParam v0 v1 point) (Fin 0) \<and> js_le (edgeParam v0 v1 point) (Fin 1)
        \<and> js_ge (edgeParam v1 v2 point) (Fin 0) \<and> js_le (edgeParam v1 v2 point) (Fin 1)
        \<longrightarrow> intersectRayWithQuad rs rd (v0, v1, v2, v3) = Some (time, point))"
proof -
  have eq: "intersectRayWithQuad rs rd (v0, v1, v2, v3) =
     (case intersectRayWithPlane rs rd v0 (vec3_cross (vec3_sub v2 v1) (vec3_sub v0 v1)) of
        None \<Rightarrow> None
      | Some (time, point) \<Rightarrow>
          if js_lt (edgeParam v0 v1 point) (Fin 0) \<or> js_gt (edgeParam v0 v1 point) (Fin 1)
          then None
          else if js_lt (edgeParam v1 v2 point) (Fin 0) \<or> js_gt (edgeParam v1 v2 point) (Fin 1)
          then None
          else Some (time, point))"
    by (simp add: intersectRayWithQuad_def edgeParam_def Let_def split: option.split)
  show ?thesis
  proof (intro conjI allI impI)
    show "intersectRayWithQuad rs rd (v0, v1, v2, v3) =
     (case intersectRayWithPlane rs rd v0 (vec3_cross (vec3_sub v2 v1) (vec3_sub v0 v1)) of
        None \<Rightarrow> None
      | Some (time, point) \<Rightarrow>
          if js_lt (edgeParam v0 v1 point) (Fin 0) \<or> js_gt (edgeParam v0 v1 point) (Fin 1)
          then None
          else if js_lt (edgeParam v1 v2 point) (Fin 0) \<or> js_gt (edgeParam v1 v2 point) (Fin 1)
          then None
          else Some (time, point))"
      by (rule eq)
  next
    fix time point
    assume "intersectRayWithPlane rs rd v0 (vec3_cross (vec3_sub v2 v1) (vec3_sub v0 v1))
          = Some (time, point)
        \<and> js_ge (edgeParam v0 v1 point) (Fin 0) \<and> js_le (edgeParam v0 v1 point) (Fin 1)
        \<and> js_ge (edgeParam v1 v2 point) (Fin 0) \<and> js_le (edgeParam v1 v2 point) (Fin 1)"
    then show "intersectRayWithQuad rs rd (v0, v1, v2, v3) = Some (time, point)"
      by (simp add: eq js_ge_not_lt js_le_not_gt)
  qed
qed

theorem intersectRayWithQuad_params_witness:
  "intersectRayWithPlane (Fin 1, Fin 1, Fin 1) (Fin 0, Fin 0, Fin (- 1)) (Fin 0, Fin 0, Fin 0)
       (vec3_cross (vec3_sub (Fin 2, Fin 2, Fin 0) (Fin 2, Fin 0, Fin 0))
          (vec3_sub (Fin 0, Fin 0, Fin 0) (Fin 2, Fin 0, Fin 0)))
     = Some (Fin 1, (Fin 1, Fin 1, Fin 0))
   \<and> js_ge (edgeParam (Fin 0, Fin 0, Fin 0) (Fin 2, Fin 0, Fin 0) (Fin 1, Fin 1, Fin 0))
        (Fin 0)
   \<and> js_le (edgeParam (Fin 0, Fin 0, Fin 0) (Fin 2, Fin 0, Fin 0) (Fin 1, Fin 1, Fin 0))
        (Fin 1)
   \<and> js_ge (edgeParam (Fin 2, Fin 0, Fin 0) (Fin 2, Fin 2, Fin 0) (Fin 1, Fin 1, Fin 0))
        (Fin 0)
   \<and> js_le (edgeParam (Fin 2, Fin 0, Fin 0) (Fin 2, Fin 2, Fin 0) (Fin 1, Fin 1, Fin 0))
        (Fin 1)
   \<and> intersectRayWithQuad (Fin 1, Fin 1, Fin 1) (Fin 0, Fin 0, Fin (- 1))
       ((Fin 0, Fin 0, Fin 0), (Fin 2, Fin 0, Fin 0), (Fin 2, Fin 2, Fin 0), (Fin 0, Fin 2, Fin 0))
     = Some (Fin 1, (Fin 1, Fin 1, Fin 0))"
proof -
  have h: "intersectRayWithPlane (Fin 1, Fin 1, Fin 1) (Fin 0, Fin 0, Fin (- 1)) (Fin 0, Fin 0, Fin 0)
       (vec3_cross (vec3_sub (Fin 2, Fin 2, Fin 0) (Fin 2, Fin 0, Fin 0))
          (vec3_sub (Fin 0, Fin 0, Fin 0) (Fin 2, Fin 0, Fin 0)))
     = Some (Fin 1, (Fin 1, Fin 1, Fin 0))
   \<and> js_ge (edgeParam (Fin 0, Fin 0, Fin 0) (Fin 2, Fin 0, Fin 0) (Fin 1, Fin 1, Fin 0))
        (Fin 0)
   \<and> js_le (edgeParam (Fin 0, Fin 0, Fin 0) (Fin 2, Fin 0, Fin 0) (Fin 1, Fin 1, Fin 0))
        (Fin 1)
   \<and> js_ge (edgeParam (Fin 2, Fin 0, Fin 0) (Fin 2, Fin 2, Fin 0) (Fin 1, Fin 1, Fin 0))
        (Fin 0)
   \<and> js_le (edgeParam (Fin 2, Fin 0, Fin 0) (Fin 2, Fin 2, Fin 0) (Fin 1, Fin 1, Fin 0))
        (Fin 1)"
    by (simp add: intersectRayWithPlane_def edgeParam_def js_eval fl_half Let_def)
  have "intersectRayWithQuad (Fin 1, Fin 1, Fin 1) (Fin 0, Fin 0, Fin (- 1))
       ((Fin 0, Fin 0, Fin 0), (Fin 2, Fin 0, Fin 0), (Fin 2, Fin 2, Fin 0), (Fin 0, Fin 2, Fin 0))
     = Some (Fin 1, (Fin 1, Fin 1, Fin 0))"
    using intersectRayWithQuad_params
      [of "(Fin 1, Fin 1, Fin 1)" "(Fin 0, Fin 0, Fin (- 1))"
          "(Fin 0, Fin 0, Fin 0)" "(Fin 2, Fin 0, Fin 0)" "(Fin 2, Fin 2, Fin 0)"
          "(Fin 0, Fin 2, Fin 0)"] h
    by blast
  with h show ?thesis by blast
qed

text \<open>
  C10. The result of \<open>intersectRayWithQuad\<close> does not depend on the fourth vertex: two
  quads that share \<open>v0\<close>, \<open>v1\<close> and \<open>v2\<close> give the same result, whatever their fourth
  vertices are.
\<close>

theorem intersectRayWithQuad_ignores_v3:
  "intersectRayWithQuad rs rd (v0, v1, v2, v3) = intersectRayWithQuad rs rd (v0, v1, v2, v3')"
  by (simp add: intersectRayWithQuad_def)

theorem intersectRayWithQuad_ignores_v3_witness:
  "intersectRayWithQuad (Fin 1, Fin 1, Fin 1) (Fin 0, Fin 0, Fin (- 1))
       ((Fin 0, Fin 0, Fin 0), (Fin 2, Fin 0, Fin 0), (Fin 2, Fin 2, Fin 0), (Fin 0, Fin 2, Fin 0))
   = intersectRayWithQuad (Fin 1, Fin 1, Fin 1) (Fin 0, Fin 0, Fin (- 1))
       ((Fin 0, Fin 0, Fin 0), (Fin 2, Fin 0, Fin 0), (Fin 2, Fin 2, Fin 0), (Fin 7, Fin 8, NaN))"
  by (rule intersectRayWithQuad_ignores_v3)

section \<open>Bounding box intersection\<close>

text \<open>
  C4. \<open>intersectRayWithAABB\<close> computes, per axis \<open>i\<close>,
  \<open>tMin_i = (box.min[i] - origin[i]) / direction[i]\<close> and
  \<open>tMax_i = (box.max[i] - origin[i]) / direction[i]\<close>, takes \<open>tmin\<close> as the maximum over
  the axes of \<open>min(tMin_i, tMax_i)\<close> and \<open>tmax\<close> as the minimum over the axes of
  \<open>max(tMin_i, tMax_i)\<close>, returns no-hit exactly when \<open>tmax < 0\<close> or \<open>tmin > tmax\<close>, and
  otherwise returns the bare scalar \<open>tmin\<close>.
\<close>

theorem intersectRayWithAABB_slabs:
  "intersectRayWithAABB origin direction box = aabbOverAxes [0, 1, 2] origin direction box"
  by (simp add: intersectRayWithAABB_def aabbOverAxes_def slabNear_def slabFar_def
        slabTMin_def slabTMax_def Let_def Math_max_NegInf Math_min_PosInf)

theorem intersectRayWithAABB_slabs_witness:
  "intersectRayWithAABB (Fin (- 2), Fin (- 2), Fin (- 2)) (Fin 1, Fin 1, Fin 1)
       \<lparr>min_box = (Fin 0, Fin 0, Fin 0), max_box = (Fin 4, Fin 4, Fin 4)\<rparr>
     = Some (Fin 2)
   \<and> intersectRayWithAABB (Fin (- 2), Fin (- 2), Fin 10) (Fin 1, Fin 1, Fin 1)
       \<lparr>min_box = (Fin 0, Fin 0, Fin 0), max_box = (Fin 4, Fin 4, Fin 4)\<rparr>
     = None"
  using intersectRayWithAABB_slabs
      [of "(Fin (- 2), Fin (- 2), Fin (- 2))" "(Fin 1, Fin 1, Fin 1)"
          "\<lparr>min_box = (Fin 0, Fin 0, Fin 0), max_box = (Fin 4, Fin 4, Fin 4)\<rparr>"]
    intersectRayWithAABB_slabs
      [of "(Fin (- 2), Fin (- 2), Fin 10)" "(Fin 1, Fin 1, Fin 1)"
          "\<lparr>min_box = (Fin 0, Fin 0, Fin 0), max_box = (Fin 4, Fin 4, Fin 4)\<rparr>"]
  by (simp add: aabbOverAxes_def slabNear_def slabFar_def slabTMin_def slabTMax_def js_eval)

lemma intersectRayWithAABB_near_far:
  "intersectRayWithAABB origin direction box =
     (if js_lt (Math_min (Math_min (slabFar origin direction box 0) (slabFar origin direction box 1))
                  (slabFar origin direction box 2)) (Fin 0)
         \<or> js_gt (Math_max (Math_max (slabNear origin direction box 0)
                     (slabNear origin direction box 1)) (slabNear origin direction box 2))
                  (Math_min (Math_min (slabFar origin direction box 0)
                     (slabFar origin direction box 1)) (slabFar origin direction box 2))
      then None
      else Some (Math_max (Math_max (slabNear origin direction box 0)
                     (slabNear origin direction box 1)) (slabNear origin direction box 2)))"
  by (simp add: intersectRayWithAABB_def slabNear_def slabFar_def slabTMin_def slabTMax_def Let_def)

text \<open>
  The sign of a rounded result: a real at least as far from zero as the smallest positive
  number of the format does not round to a zero, and keeps its sign.
\<close>

lemma fl_neg:
  assumes "1 \<le> p" and "x \<le> - two_pow emin"
  shows "is_neg (fl p emin emax x)"
proof -
  have "round_to p emin x \<le> - two_pow emin" using assms by (rule round_to_neg)
  moreover have "x < 0" using assms(2) two_pow_pos [of emin] by linarith
  ultimately show ?thesis
    using two_pow_pos [of emin] by (simp add: fl_def Let_def signed_inf_def)
qed

lemma fl_pos:
  assumes "1 \<le> p" and "two_pow emin \<le> x"
  shows "is_pos (fl p emin emax x)"
proof -
  have "two_pow emin \<le> round_to p emin x" using assms by (rule round_to_pos)
  moreover have "\<not> x < 0" using assms(2) two_pow_pos [of emin] by linarith
  ultimately show ?thesis
    using two_pow_pos [of emin] by (simp add: fl_def Let_def signed_inf_def)
qed

text \<open>A finite number of double precision is an integer multiple of the smallest one.\<close>

lemma double_grid:
  assumes "is_fin a" and "double a"
  shows "\<exists>n::int. rv a = of_int n * two_pow (- 1074)"
proof (cases a)
  case (Fin r)
  show ?thesis
  proof (cases "r = 0")
    case True
    then show ?thesis using Fin by (intro exI [of _ 0]) simp
  next
    case False
    define e where "e = max (binade r - (int 53 - 1)) (- 1074)"
    have "fl64 r = Fin r" using assms(2) Fin by simp
    then have "round_to 53 (- 1074) r = r"
      by (auto simp: fl64_def fl_def Let_def signed_inf_def signed_zero_def split: if_splits)
    then have r: "r = of_int (rte (r / two_pow e)) * two_pow e"
      using round_to_unit [OF False, of 53 "- 1074"] by (simp add: e_def)
    have "two_pow e = two_pow (e + 1074) * two_pow (- 1074)"
      using two_pow_add [of "e + 1074" "- 1074"] by simp
    also have "two_pow (e + 1074) = of_int (2 ^ nat (e + 1074))"
      by (intro two_pow_int) (simp add: e_def)
    finally have "r = of_int (rte (r / two_pow e) * 2 ^ nat (e + 1074)) * two_pow (- 1074)"
      using r by simp
    then show ?thesis
      unfolding Fin rv.simps by (rule exI)
  qed
next
  case NegZero
  then show ?thesis by (intro exI [of _ 0]) simp
qed (use assms in simp_all)

lemma js_sub_fin:
  assumes "is_fin a" and "is_fin b" and "rv a \<noteq> rv b"
  shows "js_sub a b = fl64 (rv a - rv b)"
  using assms by (cases a; cases b) (simp_all add: js_sub_def)

lemma sub_neg:
  assumes "is_fin a" and "is_fin b" and "double a" and "double b" and "rv a < rv b"
  shows "is_neg (js_sub a b)"
proof -
  obtain n where n: "rv a = of_int n * two_pow (- 1074)"
    using double_grid [OF assms(1,3)] by blast
  obtain m where m: "rv b = of_int m * two_pow (- 1074)"
    using double_grid [OF assms(2,4)] by blast
  have "of_int n * two_pow (- 1074) < of_int m * two_pow (- 1074)"
    using assms(5) by (simp only: n m)
  then have "n < m" using two_pow_pos [of "- 1074"] by simp
  then have "n - m \<le> - 1" by simp
  then have "(of_int (n - m) :: real) \<le> of_int (- 1)" by (simp only: of_int_le_iff)
  then have "of_int (n - m) * two_pow (- 1074) \<le> - 1 * two_pow (- 1074)"
    using two_pow_pos [of "- 1074"] by (intro mult_right_mono) simp_all
  then have "rv a - rv b \<le> - two_pow (- 1074)"
    by (simp add: n m algebra_simps)
  then have "is_neg (fl64 (rv a - rv b))"
    unfolding fl64_def by (intro fl_neg) simp_all
  then show ?thesis
    using js_sub_fin [OF assms(1,2)] assms(5) by simp
qed

lemma sub_pos:
  assumes "is_fin a" and "is_fin b" and "double a" and "double b" and "rv b < rv a"
  shows "is_pos (js_sub a b)"
proof -
  obtain n where n: "rv a = of_int n * two_pow (- 1074)"
    using double_grid [OF assms(1,3)] by blast
  obtain m where m: "rv b = of_int m * two_pow (- 1074)"
    using double_grid [OF assms(2,4)] by blast
  have "of_int m * two_pow (- 1074) < of_int n * two_pow (- 1074)"
    using assms(5) by (simp only: n m)
  then have "m < n" using two_pow_pos [of "- 1074"] by simp
  then have "1 \<le> n - m" by simp
  then have "(of_int 1 :: real) \<le> of_int (n - m)" by (simp only: of_int_le_iff)
  then have "1 * two_pow (- 1074) \<le> of_int (n - m) * two_pow (- 1074)"
    using two_pow_pos [of "- 1074"] by (intro mult_right_mono) simp_all
  then have "two_pow (- 1074) \<le> rv a - rv b"
    by (simp add: n m algebra_simps)
  then have "is_pos (fl64 (rv a - rv b))"
    unfolding fl64_def by (intro fl_pos) simp_all
  then show ?thesis
    using js_sub_fin [OF assms(1,2)] assms(5) by simp
qed

text \<open>Minimum and maximum on numbers that are not NaN.\<close>

lemma quotients_inside:
  "is_neg a \<Longrightarrow> is_pos b \<Longrightarrow> is_zero d \<Longrightarrow>
     is_inf (js_div a d) \<and> is_inf (js_div b d)
     \<and> Math_min (js_div a d) (js_div b d) = NegInf
     \<and> Math_max (js_div a d) (js_div b d) = PosInf"
  by (cases a; cases b; cases d) (auto simp: js_eval)

lemma quotients_outside:
  "(is_neg a \<and> is_neg b) \<or> (is_pos a \<and> is_pos b) \<Longrightarrow> is_zero d \<Longrightarrow>
     is_inf (js_div a d) \<and> js_div b d = js_div a d"
  by (cases a; cases b; cases d) (auto simp: js_eval)

lemma Math_max_notNaN: "\<not> isNaN a \<Longrightarrow> \<not> isNaN b \<Longrightarrow> \<not> isNaN (Math_max a b)"
  by (simp add: Math_max_def)

lemma Math_min_notNaN: "\<not> isNaN a \<Longrightarrow> \<not> isNaN b \<Longrightarrow> \<not> isNaN (Math_min a b)"
  by (simp add: Math_min_def)

lemma Math_max_NaN: "isNaN a \<or> isNaN b \<Longrightarrow> Math_max a b = NaN"
  by (auto simp: Math_max_def)

lemma Math_min_NaN: "isNaN a \<or> isNaN b \<Longrightarrow> Math_min a b = NaN"
  by (auto simp: Math_min_def)

lemma Math_max_PosInf: "\<not> isNaN a \<Longrightarrow> Math_max a PosInf = PosInf \<and> Math_max PosInf a = PosInf"
  by (cases a) (simp_all add: Math_max_def)

lemma Math_min_NegInf: "\<not> isNaN a \<Longrightarrow> Math_min a NegInf = NegInf \<and> Math_min NegInf a = NegInf"
  by (cases a) (simp_all add: Math_min_def)

lemma Math_min_is_PosInf:
  "\<not> isNaN a \<Longrightarrow> \<not> isNaN b \<Longrightarrow> Math_min a b = PosInf \<Longrightarrow> a = PosInf \<and> b = PosInf"
  by (cases a; cases b) (auto simp: Math_min_def split: if_splits)

lemma lt_PosInf: "\<not> isNaN a \<Longrightarrow> a \<noteq> PosInf \<Longrightarrow> js_lt a PosInf"
  by (cases a) simp_all

lemma reduce_outside:
  assumes nn: "\<not> isNaN n0" "\<not> isNaN n1" "\<not> isNaN n2"
    and nf: "\<not> isNaN f0" "\<not> isNaN f1" "\<not> isNaN f2"
    and out: "(n0 = PosInf \<and> f0 = PosInf) \<or> (n0 = NegInf \<and> f0 = NegInf)
        \<or> (n1 = PosInf \<and> f1 = PosInf) \<or> (n1 = NegInf \<and> f1 = NegInf)
        \<or> (n2 = PosInf \<and> f2 = PosInf) \<or> (n2 = NegInf \<and> f2 = NegInf)"
    and fin: "f0 \<noteq> PosInf \<or> f1 \<noteq> PosInf \<or> f2 \<noteq> PosInf"
  shows "js_lt (Math_min (Math_min f0 f1) f2) (Fin 0)
       \<or> js_gt (Math_max (Math_max n0 n1) n2) (Math_min (Math_min f0 f1) f2)"
proof -
  let ?tmax = "Math_min (Math_min f0 f1) f2"
  let ?tmin = "Math_max (Math_max n0 n1) n2"
  have tn: "\<not> isNaN ?tmax"
    using nf by (simp add: Math_min_notNaN)
  have below: "?tmax \<noteq> PosInf"
  proof
    assume "?tmax = PosInf"
    then have "Math_min f0 f1 = PosInf \<and> f2 = PosInf"
      using nf by (intro Math_min_is_PosInf) (simp_all add: Math_min_notNaN)
    moreover from this have "f0 = PosInf \<and> f1 = PosInf"
      using nf by (intro Math_min_is_PosInf) simp_all
    ultimately show False
      using fin by auto
  qed
  consider (neg) "f0 = NegInf \<or> f1 = NegInf \<or> f2 = NegInf"
    | (pos) "n0 = PosInf \<or> n1 = PosInf \<or> n2 = PosInf"
    using out by blast
  then show ?thesis
  proof cases
    case neg
    then have "?tmax = NegInf"
      using nf by (auto simp: Math_min_NegInf Math_min_notNaN)
    then show ?thesis by simp
  next
    case pos
    then have "?tmin = PosInf"
      using nn by (auto simp: Math_max_PosInf Math_max_notNaN)
    then show ?thesis
      using tn below by (simp add: js_gt_def lt_PosInf)
  qed
qed

lemma less_3_cases: "(i::nat) < 3 \<Longrightarrow> i = 0 \<or> i = 1 \<or> i = 2"
  by arith

lemma slab_inside:
  assumes "is_zero (vec3_at direction i)"
    and "is_fin (vec3_at origin i)" and "is_fin (vec3_at (min_box box) i)"
    and "is_fin (vec3_at (max_box box) i)"
    and "double (vec3_at origin i)" and "double (vec3_at (min_box box) i)"
    and "double (vec3_at (max_box box) i)"
    and "rv (vec3_at (min_box box) i) < rv (vec3_at origin i)"
    and "rv (vec3_at origin i) < rv (vec3_at (max_box box) i)"
  shows "is_inf (slabTMin origin direction box i) \<and> is_inf (slabTMax origin direction box i)
       \<and> slabNear origin direction box i = NegInf \<and> slabFar origin direction box i = PosInf"
  unfolding slabNear_def slabFar_def slabTMin_def slabTMax_def
  using assms by (intro quotients_inside sub_neg sub_pos)

lemma slab_outside:
  assumes "is_zero (vec3_at direction i)"
    and "is_fin (vec3_at origin i)" and "is_fin (vec3_at (min_box box) i)"
    and "is_fin (vec3_at (max_box box) i)"
    and "double (vec3_at origin i)" and "double (vec3_at (min_box box) i)"
    and "double (vec3_at (max_box box) i)"
    and "(rv (vec3_at origin i) < rv (vec3_at (min_box box) i)
          \<and> rv (vec3_at origin i) < rv (vec3_at (max_box box) i))
       \<or> (rv (vec3_at (min_box box) i) < rv (vec3_at origin i)
          \<and> rv (vec3_at (max_box box) i) < rv (vec3_at origin i))"
  shows "is_inf (slabTMin origin direction box i)
       \<and> slabTMax origin direction box i = slabTMin origin direction box i"
proof -
  have "(is_neg (js_sub (vec3_at (min_box box) i) (vec3_at origin i))
         \<and> is_neg (js_sub (vec3_at (max_box box) i) (vec3_at origin i)))
      \<or> (is_pos (js_sub (vec3_at (min_box box) i) (vec3_at origin i))
         \<and> is_pos (js_sub (vec3_at (max_box box) i) (vec3_at origin i)))"
    using assms(8)
  proof
    assume "rv (vec3_at origin i) < rv (vec3_at (min_box box) i)
          \<and> rv (vec3_at origin i) < rv (vec3_at (max_box box) i)"
    then show ?thesis using assms(2-7) by (intro disjI2 conjI sub_pos) simp_all
  next
    assume "rv (vec3_at (min_box box) i) < rv (vec3_at origin i)
          \<and> rv (vec3_at (max_box box) i) < rv (vec3_at origin i)"
    then show ?thesis using assms(2-7) by (intro disjI1 conjI sub_neg) simp_all
  qed
  then show ?thesis
    unfolding slabTMin_def slabTMax_def using assms(1) by (rule quotients_outside)
qed

lemma slab_same_inf:
  assumes "is_inf (slabTMin origin direction box i)"
    and "slabTMax origin direction box i = slabTMin origin direction box i"
  shows "(slabNear origin direction box i = PosInf \<and> slabFar origin direction box i = PosInf)
       \<or> (slabNear origin direction box i = NegInf \<and> slabFar origin direction box i = NegInf)"
  using assms by (cases "slabTMin origin direction box i")
    (simp_all add: slabNear_def slabFar_def Math_max_def Math_min_def)

lemma slab_NaN: "isNaN (slabNear origin direction box i) = isNaN (slabFar origin direction box i)"
  by (simp add: slabNear_def slabFar_def Math_max_def Math_min_def)

lemma aabb_inside:
  assumes "i < 3"
    and "slabNear origin direction box i = NegInf" and "slabFar origin direction box i = PosInf"
  shows "intersectRayWithAABB origin direction box
       = aabbOverAxes (remove1 i [0, 1, 2]) origin direction box"
  using less_3_cases [OF assms(1)] assms(2,3)
  by (auto simp: intersectRayWithAABB_near_far aabbOverAxes_def Math_max_NegInf Math_min_PosInf
      Math_max_NegInf_right Math_min_PosInf_right)

lemma aabb_outside:
  assumes i: "i < 3"
    and same: "(slabNear origin direction box i = PosInf \<and> slabFar origin direction box i = PosInf)
       \<or> (slabNear origin direction box i = NegInf \<and> slabFar origin direction box i = NegInf)"
    and nn: "\<forall>m<3. \<not> isNaN (slabFar origin direction box m)"
    and j: "\<exists>m<3. slabFar origin direction box m \<noteq> PosInf"
  shows "intersectRayWithAABB origin direction box = None"
proof -
  obtain j where j3: "j < 3" and jf: "slabFar origin direction box j \<noteq> PosInf"
    using j by blast
  have "js_lt (Math_min (Math_min (slabFar origin direction box 0) (slabFar origin direction box 1))
                  (slabFar origin direction box 2)) (Fin 0)
         \<or> js_gt (Math_max (Math_max (slabNear origin direction box 0)
                     (slabNear origin direction box 1)) (slabNear origin direction box 2))
                  (Math_min (Math_min (slabFar origin direction box 0)
                     (slabFar origin direction box 1)) (slabFar origin direction box 2))"
  proof (rule reduce_outside)
    show "\<not> isNaN (slabNear origin direction box 0)" "\<not> isNaN (slabNear origin direction box 1)"
      "\<not> isNaN (slabNear origin direction box 2)" "\<not> isNaN (slabFar origin direction box 0)"
      "\<not> isNaN (slabFar origin direction box 1)" "\<not> isNaN (slabFar origin direction box 2)"
      using nn by (simp_all add: slab_NaN)
    show "(slabNear origin direction box 0 = PosInf \<and> slabFar origin direction box 0 = PosInf)
        \<or> (slabNear origin direction box 0 = NegInf \<and> slabFar origin direction box 0 = NegInf)
        \<or> (slabNear origin direction box 1 = PosInf \<and> slabFar origin direction box 1 = PosInf)
        \<or> (slabNear origin direction box 1 = NegInf \<and> slabFar origin direction box 1 = NegInf)
        \<or> (slabNear origin direction box 2 = PosInf \<and> slabFar origin direction box 2 = PosInf)
        \<or> (slabNear origin direction box 2 = NegInf \<and> slabFar origin direction box 2 = NegInf)"
      using same less_3_cases [OF i] by auto
    show "slabFar origin direction box 0 \<noteq> PosInf \<or> slabFar origin direction box 1 \<noteq> PosInf
        \<or> slabFar origin direction box 2 \<noteq> PosInf"
      using jf less_3_cases [OF j3] by auto
  qed
  then show ?thesis
    by (simp add: intersectRayWithAABB_near_far)
qed

lemma aabb_all_PosInf:
  assumes "\<forall>m<3. slabFar origin direction box m = PosInf"
    and i: "i < 3" and "slabNear origin direction box i = PosInf"
  shows "intersectRayWithAABB origin direction box = Some PosInf"
proof -
  have f: "slabFar origin direction box 0 = PosInf" "slabFar origin direction box 1 = PosInf"
    "slabFar origin direction box (Suc 0) = PosInf" "slabFar origin direction box 2 = PosInf"
    using assms(1) by simp_all
  have n: "\<not> isNaN (slabNear origin direction box 0)" "\<not> isNaN (slabNear origin direction box 1)"
    "\<not> isNaN (slabNear origin direction box 2)"
    using f by (simp_all add: slab_NaN)
  have "Math_max (Math_max (slabNear origin direction box 0) (slabNear origin direction box 1))
      (slabNear origin direction box 2) = PosInf"
    using less_3_cases [OF i] assms(3) n by (auto simp: Math_max_PosInf Math_max_notNaN)
  then show ?thesis
    by (simp add: intersectRayWithAABB_near_far f Math_min_def js_gt_def)
qed

lemma aabb_NaN:
  assumes "\<exists>m<3. isNaN (slabFar origin direction box m)"
  shows "intersectRayWithAABB origin direction box = Some NaN"
proof -
  obtain m where m: "m < 3" "isNaN (slabFar origin direction box m)"
    using assms by blast
  then have f: "isNaN (slabFar origin direction box 0) \<or> isNaN (slabFar origin direction box 1)
      \<or> isNaN (slabFar origin direction box 2)"
    using less_3_cases [OF m(1)] by auto
  then have n: "isNaN (slabNear origin direction box 0) \<or> isNaN (slabNear origin direction box 1)
      \<or> isNaN (slabNear origin direction box 2)"
    by (simp add: slab_NaN)
  have "Math_min (Math_min (slabFar origin direction box 0) (slabFar origin direction box 1))
      (slabFar origin direction box 2) = NaN"
    using f by (auto simp: Math_min_NaN)
  moreover have "Math_max (Math_max (slabNear origin direction box 0)
      (slabNear origin direction box 1)) (slabNear origin direction box 2) = NaN"
    using n by (auto simp: Math_max_NaN)
  ultimately show ?thesis
    by (simp add: intersectRayWithAABB_near_far js_gt_def)
qed


text \<open>
  C9, as amended. For the box \<open>min = (0,0,0)\<close>, \<open>max = (1,1,1)\<close> and the direction
  \<open>(0,0,1)\<close>, \<open>intersectRayWithAABB\<close> returns the time 5 from the origin \<open>(0.5,0.5,-5)\<close>
  and no-hit from the origin \<open>(0.5,0.5,5)\<close>. In general, let the direction component of
  axis \<open>i\<close> be a zero of either sign, and let the origin's coordinate, \<open>box.min[i]\<close> and
  \<open>box.max[i]\<close> be finite numbers of double precision. If the origin's coordinate lies
  strictly between \<open>box.min[i]\<close> and \<open>box.max[i]\<close>, the two quotients of the axis are
  infinite, their minimum is \<open>-Infinity\<close> and their maximum \<open>Infinity\<close>, and the result
  is that of the slab method over the two other axes. If the origin's coordinate lies
  strictly on one side of both \<open>box.min[i]\<close> and \<open>box.max[i]\<close>, the two quotients are the
  same infinity. The result is then no-hit when no axis has NaN for its quotients and the
  larger quotient of some axis is not \<open>Infinity\<close>; it is \<open>Infinity\<close> when the larger
  quotient of every axis is \<open>Infinity\<close>, as it is when the quotients of the two other
  axes overflow; and it is NaN when some axis has NaN for a quotient.
\<close>

theorem intersectRayWithAABB_zero_direction:
  "intersectRayWithAABB (Fin (1/2), Fin (1/2), Fin (- 5)) (Fin 0, Fin 0, Fin 1)
       \<lparr>min_box = (Fin 0, Fin 0, Fin 0), max_box = (Fin 1, Fin 1, Fin 1)\<rparr> = Some (Fin 5)
   \<and> intersectRayWithAABB (Fin (1/2), Fin (1/2), Fin 5) (Fin 0, Fin 0, Fin 1)
       \<lparr>min_box = (Fin 0, Fin 0, Fin 0), max_box = (Fin 1, Fin 1, Fin 1)\<rparr> = None
   \<and> (i < 3 \<and> is_zero (vec3_at direction i)
        \<and> is_fin (vec3_at origin i) \<and> is_fin (vec3_at (min_box box) i)
        \<and> is_fin (vec3_at (max_box box) i)
        \<and> double (vec3_at origin i) \<and> double (vec3_at (min_box box) i)
        \<and> double (vec3_at (max_box box) i)
        \<and> rv (vec3_at (min_box box) i) < rv (vec3_at origin i)
        \<and> rv (vec3_at origin i) < rv (vec3_at (max_box box) i)
      \<longrightarrow> is_inf (slabTMin origin direction box i) \<and> is_inf (slabTMax origin direction box i)
        \<and> slabNear origin direction box i = NegInf \<and> slabFar origin direction box i = PosInf
        \<and> intersectRayWithAABB origin direction box
            = aabbOverAxes (remove1 i [0, 1, 2]) origin direction box)
   \<and> (i < 3 \<and> is_zero (vec3_at direction i)
        \<and> is_fin (vec3_at origin i) \<and> is_fin (vec3_at (min_box box) i)
        \<and> is_fin (vec3_at (max_box box) i)
        \<and> double (vec3_at origin i) \<and> double (vec3_at (min_box box) i)
        \<and> double (vec3_at (max_box box) i)
        \<and> ((rv (vec3_at origin i) < rv (vec3_at (min_box box) i)
              \<and> rv (vec3_at origin i) < rv (vec3_at (max_box box) i))
           \<or> (rv (vec3_at (min_box box) i) < rv (vec3_at origin i)
              \<and> rv (vec3_at (max_box box) i) < rv (vec3_at origin i)))
      \<longrightarrow> is_inf (slabTMin origin direction box i)
        \<and> slabTMax origin direction box i = slabTMin origin direction box i
        \<and> ((\<forall>m<3. \<not> isNaN (slabFar origin direction box m))
             \<and> (\<exists>m<3. slabFar origin direction box m \<noteq> PosInf)
           \<longrightarrow> intersectRayWithAABB origin direction box = None)
        \<and> ((\<forall>m<3. slabFar origin direction box m = PosInf)
           \<longrightarrow> intersectRayWithAABB origin direction box = Some PosInf)
        \<and> ((\<exists>m<3. isNaN (slabFar origin direction box m))
           \<longrightarrow> intersectRayWithAABB origin direction box = Some NaN))"
proof (intro conjI impI)
  show "intersectRayWithAABB (Fin (1/2), Fin (1/2), Fin (- 5)) (Fin 0, Fin 0, Fin 1)
       \<lparr>min_box = (Fin 0, Fin 0, Fin 0), max_box = (Fin 1, Fin 1, Fin 1)\<rparr> = Some (Fin 5)"
    by (simp add: intersectRayWithAABB_def js_eval fl_half)
  show "intersectRayWithAABB (Fin (1/2), Fin (1/2), Fin 5) (Fin 0, Fin 0, Fin 1)
       \<lparr>min_box = (Fin 0, Fin 0, Fin 0), max_box = (Fin 1, Fin 1, Fin 1)\<rparr> = None"
    by (simp add: intersectRayWithAABB_def js_eval fl_half)
next
  assume h: "i < 3 \<and> is_zero (vec3_at direction i)
        \<and> is_fin (vec3_at origin i) \<and> is_fin (vec3_at (min_box box) i)
        \<and> is_fin (vec3_at (max_box box) i)
        \<and> double (vec3_at origin i) \<and> double (vec3_at (min_box box) i)
        \<and> double (vec3_at (max_box box) i)
        \<and> rv (vec3_at (min_box box) i) < rv (vec3_at origin i)
        \<and> rv (vec3_at origin i) < rv (vec3_at (max_box box) i)"
  then have s: "is_inf (slabTMin origin direction box i) \<and> is_inf (slabTMax origin direction box i)
       \<and> slabNear origin direction box i = NegInf \<and> slabFar origin direction box i = PosInf"
    by (intro slab_inside) simp_all
  from s show "is_inf (slabTMin origin direction box i)"
    and "is_inf (slabTMax origin direction box i)"
    and "slabNear origin direction box i = NegInf"
    and "slabFar origin direction box i = PosInf"
    by simp_all
  from h s show "intersectRayWithAABB origin direction box
      = aabbOverAxes (remove1 i [0, 1, 2]) origin direction box"
    by (intro aabb_inside) simp_all
next
  assume h: "i < 3 \<and> is_zero (vec3_at direction i)
        \<and> is_fin (vec3_at origin i) \<and> is_fin (vec3_at (min_box box) i)
        \<and> is_fin (vec3_at (max_box box) i)
        \<and> double (vec3_at origin i) \<and> double (vec3_at (min_box box) i)
        \<and> double (vec3_at (max_box box) i)
        \<and> ((rv (vec3_at origin i) < rv (vec3_at (min_box box) i)
              \<and> rv (vec3_at origin i) < rv (vec3_at (max_box box) i))
           \<or> (rv (vec3_at (min_box box) i) < rv (vec3_at origin i)
              \<and> rv (vec3_at (max_box box) i) < rv (vec3_at origin i)))"
  then have s: "is_inf (slabTMin origin direction box i)
       \<and> slabTMax origin direction box i = slabTMin origin direction box i"
    by (intro slab_outside) simp_all
  from s show "is_inf (slabTMin origin direction box i)"
    and "slabTMax origin direction box i = slabTMin origin direction box i"
    by simp_all
  have same: "(slabNear origin direction box i = PosInf \<and> slabFar origin direction box i = PosInf)
       \<or> (slabNear origin direction box i = NegInf \<and> slabFar origin direction box i = NegInf)"
    using s by (intro slab_same_inf) simp_all
  {
    assume "(\<forall>m<3. \<not> isNaN (slabFar origin direction box m))
             \<and> (\<exists>m<3. slabFar origin direction box m \<noteq> PosInf)"
    then show "intersectRayWithAABB origin direction box = None"
      using h same by (intro aabb_outside [of i]) simp_all
  }
  {
    assume a: "\<forall>m<3. slabFar origin direction box m = PosInf"
    then have "slabFar origin direction box i = PosInf" using h by simp
    then have "slabNear origin direction box i = PosInf" using same by auto
    then show "intersectRayWithAABB origin direction box = Some PosInf"
      using a h by (intro aabb_all_PosInf [of _ _ _ i]) simp_all
  }
  {
    assume "\<exists>m<3. isNaN (slabFar origin direction box m)"
    then show "intersectRayWithAABB origin direction box = Some NaN"
      by (rule aabb_NaN)
  }
qed

theorem intersectRayWithAABB_zero_direction_witness:
  "intersectRayWithAABB (Fin (1/2), Fin 3, Fin (- 5)) (NegZero, Fin 1, Fin 2)
       \<lparr>min_box = (Fin 0, Fin 0, Fin 0), max_box = (Fin 1, Fin 1, Fin 1)\<rparr>
     = aabbOverAxes [1, 2] (Fin (1/2), Fin 3, Fin (- 5)) (NegZero, Fin 1, Fin 2)
         \<lparr>min_box = (Fin 0, Fin 0, Fin 0), max_box = (Fin 1, Fin 1, Fin 1)\<rparr>
   \<and> slabTMin (Fin (1/2), Fin 3, Fin (- 5)) (NegZero, Fin 1, Fin 2)
       \<lparr>min_box = (Fin 0, Fin 0, Fin 0), max_box = (Fin 1, Fin 1, Fin 1)\<rparr> 0 = PosInf
   \<and> intersectRayWithAABB (Fin 2, Fin (1/2), Fin (- 5)) (Fin 0, NegZero, Fin 1)
       \<lparr>min_box = (Fin 0, Fin 0, Fin 0), max_box = (Fin 1, Fin 1, Fin 1)\<rparr> = None
   \<and> slabTMax (Fin 2, Fin (1/2), Fin (- 5)) (Fin 0, NegZero, Fin 1)
       \<lparr>min_box = (Fin 0, Fin 0, Fin 0), max_box = (Fin 1, Fin 1, Fin 1)\<rparr> 0 = NegInf"
proof -
  let ?box = "\<lparr>min_box = (Fin 0, Fin 0, Fin 0), max_box = (Fin 1, Fin 1, Fin 1)\<rparr>"
  let ?o1 = "(Fin (1/2), Fin 3, Fin (- 5))" and ?d1 = "(NegZero, Fin 1, Fin 2)"
  let ?o2 = "(Fin 2, Fin (1/2), Fin (- 5))" and ?d2 = "(Fin 0, NegZero, Fin 1)"
  have h1: "(0::nat) < 3 \<and> is_zero (vec3_at ?d1 0)
        \<and> is_fin (vec3_at ?o1 0) \<and> is_fin (vec3_at (min_box ?box) 0)
        \<and> is_fin (vec3_at (max_box ?box) 0)
        \<and> double (vec3_at ?o1 0) \<and> double (vec3_at (min_box ?box) 0)
        \<and> double (vec3_at (max_box ?box) 0)
        \<and> rv (vec3_at (min_box ?box) 0) < rv (vec3_at ?o1 0)
        \<and> rv (vec3_at ?o1 0) < rv (vec3_at (max_box ?box) 0)"
    by (simp add: fl_half)
  have h2: "(0::nat) < 3 \<and> is_zero (vec3_at ?d2 0)
        \<and> is_fin (vec3_at ?o2 0) \<and> is_fin (vec3_at (min_box ?box) 0)
        \<and> is_fin (vec3_at (max_box ?box) 0)
        \<and> double (vec3_at ?o2 0) \<and> double (vec3_at (min_box ?box) 0)
        \<and> double (vec3_at (max_box ?box) 0)
        \<and> ((rv (vec3_at ?o2 0) < rv (vec3_at (min_box ?box) 0)
              \<and> rv (vec3_at ?o2 0) < rv (vec3_at (max_box ?box) 0))
           \<or> (rv (vec3_at (min_box ?box) 0) < rv (vec3_at ?o2 0)
              \<and> rv (vec3_at (max_box ?box) 0) < rv (vec3_at ?o2 0)))"
    by (simp add: fl_half)
  have f: "slabFar ?o2 ?d2 ?box 0 = NegInf" "slabFar ?o2 ?d2 ?box 1 = PosInf"
    "slabFar ?o2 ?d2 ?box 2 = Fin 6"
    by (simp_all add: slabFar_def slabTMin_def slabTMax_def js_eval fl_half)
  have h3: "(\<forall>m<3. \<not> isNaN (slabFar ?o2 ?d2 ?box m))
      \<and> (\<exists>m<3. slabFar ?o2 ?d2 ?box m \<noteq> PosInf)"
  proof
    show "\<forall>m<3. \<not> isNaN (slabFar ?o2 ?d2 ?box m)"
      using f by (auto dest!: less_3_cases)
    show "\<exists>m<3. slabFar ?o2 ?d2 ?box m \<noteq> PosInf"
      using f(1) by (intro exI [of _ 0]) simp
  qed
  note t1 = intersectRayWithAABB_zero_direction [of 0 ?d1 ?o1 ?box,
      THEN conjunct2, THEN conjunct2, THEN conjunct1, rule_format, OF h1]
  note t2 = intersectRayWithAABB_zero_direction [of 0 ?d2 ?o2 ?box,
      THEN conjunct2, THEN conjunct2, THEN conjunct2, rule_format, OF h2]
  note t3 = t2 [THEN conjunct2, THEN conjunct2, THEN conjunct1, rule_format, OF h3]
  have a: "slabTMin ?o1 ?d1 ?box 0 = PosInf"
    by (simp add: slabTMin_def js_eval fl_half)
  have b: "slabTMax ?o2 ?d2 ?box 0 = NegInf"
    by (simp add: slabTMax_def js_eval fl_half)
  from t1 t3 a b show ?thesis by simp
qed

text \<open>
  The claim as first stated fails when the origin lies in the plane of a face to which
  the ray is parallel: the direction component of the x axis is zero, the quotient
  \<open>(box.min[0] - origin[0]) / direction[0]\<close> is \<open>0 / 0 = NaN\<close> and not an infinity, and
  for a box that lies wholly behind the ray the result is NaN, not no-hit.
\<close>

theorem intersectRayWithAABB_on_face_plane:
  "is_zero (vec3_at (Fin 0, Fin 0, Fin 1) 0)
   \<and> slabTMin (Fin 0, Fin (1/2), Fin 5) (Fin 0, Fin 0, Fin 1)
       \<lparr>min_box = (Fin 0, Fin 0, Fin 0), max_box = (Fin 1, Fin 1, Fin 1)\<rparr> 0 = NaN
   \<and> \<not> is_inf (slabTMin (Fin 0, Fin (1/2), Fin 5) (Fin 0, Fin 0, Fin 1)
       \<lparr>min_box = (Fin 0, Fin 0, Fin 0), max_box = (Fin 1, Fin 1, Fin 1)\<rparr> 0)
   \<and> intersectRayWithAABB (Fin 0, Fin (1/2), Fin 5) (Fin 0, Fin 0, Fin 1)
       \<lparr>min_box = (Fin 0, Fin 0, Fin 0), max_box = (Fin 1, Fin 1, Fin 1)\<rparr> = Some NaN"
  by (simp add: intersectRayWithAABB_def slabTMin_def js_eval fl_half)

text \<open>
  The error of one rounding: a finite result differs from the exact one by at most the
  fraction \<open>2 ^ - p\<close> of its magnitude, or by half the smallest positive number of the
  format when the result is subnormal.
\<close>

lemma unit_bound:
  assumes "1 \<le> p" and "x \<noteq> 0"
  shows "two_pow (max (binade x - (int p - 1)) emin) / 2 \<le> \<bar>x\<bar> / 2 ^ p + two_pow (emin - 1)"
proof -
  have a: "two_pow (binade x - (int p - 1)) / 2 \<le> \<bar>x\<bar> / 2 ^ p"
  proof -
    have "two_pow (binade x - (int p - 1)) * two_pow (int p) = two_pow (binade x) * 2"
      using two_pow_add [of "binade x - (int p - 1)" "int p"] two_pow_add [of "binade x" 1]
      by (simp add: two_pow_def [of 1])
    then have "two_pow (binade x - (int p - 1)) * 2 ^ p = two_pow (binade x) * 2"
      by (simp add: two_pow_nat)
    then have "two_pow (binade x - (int p - 1)) / 2 = two_pow (binade x) / 2 ^ p"
      by (simp add: field_simps)
    also have "\<dots> \<le> \<bar>x\<bar> / 2 ^ p"
      using binade_bounds [OF assms(2)] by (simp add: divide_right_mono)
    finally show ?thesis .
  qed
  have b: "two_pow emin / 2 = two_pow (emin - 1)"
    using two_pow_add [of "emin - 1" 1] by (simp add: two_pow_def [of 1])
  have "0 \<le> \<bar>x\<bar> / 2 ^ p" by simp
  moreover have "0 < two_pow (emin - 1)" by (rule two_pow_pos)
  ultimately show ?thesis
    using a b by (simp add: max_def)
qed

lemma fl_rv:
  assumes "is_fin (fl p emin emax x)"
  shows "rv (fl p emin emax x) = round_to p emin x"
  using assms by (auto simp: fl_def Let_def signed_inf_def signed_zero_def split: if_splits)

lemma fl_err:
  assumes "1 \<le> p" and "is_fin (fl p emin emax x)"
  shows "\<bar>rv (fl p emin emax x) - x\<bar> \<le> \<bar>x\<bar> / 2 ^ p + two_pow (emin - 1)"
proof (cases "x = 0")
  case True
  then show ?thesis
    using fl_rv [OF assms(2)] two_pow_pos [of "emin - 1"] by (simp add: round_to_0)
next
  case False
  then show ?thesis
    using round_to_err [of p emin x] unit_bound [OF assms(1) False, of emin] fl_rv [OF assms(2)]
    by linarith
qed

lemma fl64_err:
  "is_fin (fl64 x) \<Longrightarrow> \<bar>rv (fl64 x) - x\<bar> \<le> \<bar>x\<bar> / 2 ^ 53 + two_pow (- 1075)"
  unfolding fl64_def using fl_err [of 53 "- 1074" 1024 x] by simp

lemma fl32_err:
  "is_fin (fl32 x) \<Longrightarrow> \<bar>rv (fl32 x) - x\<bar> \<le> \<bar>x\<bar> / 2 ^ 24 + two_pow (- 150)"
  unfolding fl32_def using fl_err [of 24 "- 149" 128 x] by simp

lemma mul_err:
  assumes "is_fin (js_mul a b)"
  shows "is_fin a \<and> is_fin b
       \<and> \<bar>rv (js_mul a b) - rv a * rv b\<bar> \<le> \<bar>rv a * rv b\<bar> / 2 ^ 53 + two_pow (- 1075)"
proof -
  have f: "is_fin a \<and> is_fin b"
    using assms by (cases a; cases b) (auto simp: js_mul_def signed_inf_def split: if_splits)
  show ?thesis
  proof (cases "is_zero a \<or> is_zero b")
    case True
    then have p0: "rv a * rv b = 0" by (cases a; cases b) auto
    have r0: "rv (js_mul a b) = 0"
      using True f by (cases a; cases b) (auto simp: js_mul_def signed_zero_def)
    show ?thesis unfolding p0 r0 using f two_pow_pos [of "- 1075"] by simp
  next
    case False
    then have "js_mul a b = fl64 (rv a * rv b)"
      using f by (cases a; cases b) (auto simp: js_mul_def)
    then show ?thesis using f assms fl64_err [of "rv a * rv b"] by simp
  qed
qed

lemma add_err:
  assumes "is_fin (js_add a b)"
  shows "is_fin a \<and> is_fin b
       \<and> \<bar>rv (js_add a b) - (rv a + rv b)\<bar> \<le> \<bar>rv a + rv b\<bar> / 2 ^ 53 + two_pow (- 1075)"
proof -
  have f: "is_fin a \<and> is_fin b"
    using assms by (cases a; cases b) auto
  show ?thesis
  proof (cases "a = NegZero \<and> b = NegZero")
    case True
    then show ?thesis using two_pow_pos [of "- 1075"] by simp
  next
    case False
    then have "js_add a b = fl64 (rv a + rv b)"
      using f by (cases a; cases b) auto
    then show ?thesis using f assms fl64_err [of "rv a + rv b"] by simp
  qed
qed

lemma fround_err:
  assumes "is_fin (fround a)"
  shows "is_fin a \<and> \<bar>rv (fround a) - rv a\<bar> \<le> \<bar>rv a\<bar> / 2 ^ 24 + two_pow (- 150)"
  using assms fl32_err [of "rv a"] two_pow_pos [of "- 150"] by (cases a) auto

lemma div_err:
  assumes "is_fin (js_div a b)" and "is_fin b"
  shows "\<bar>rv (js_div a b) * rv b - rv a\<bar> \<le> \<bar>rv a\<bar> / 2 ^ 53 + \<bar>rv b\<bar> * two_pow (- 1075)"
proof -
  have fa: "is_fin a" and nz: "\<not> is_zero b"
    using assms by (cases a; cases b; auto simp: js_div_def signed_inf_def split: if_splits)+
  have b0: "rv b \<noteq> 0" using nz assms(2) by (cases b) auto
  show ?thesis
  proof (cases "is_zero a")
    case True
    then have "rv a = 0" by (cases a) auto
    moreover have "rv (js_div a b) = 0"
      using True nz assms(2) by (cases a; cases b) (auto simp: js_div_def signed_zero_def)
    ultimately show ?thesis using two_pow_pos [of "- 1075"] by simp
  next
    case False
    then have "js_div a b = fl64 (rv a / rv b)"
      using fa assms(2) nz by (cases a; cases b) (auto simp: js_div_def)
    then have e: "\<bar>rv (js_div a b) - rv a / rv b\<bar> \<le> \<bar>rv a / rv b\<bar> / 2 ^ 53 + two_pow (- 1075)"
      using assms(1) fl64_err [of "rv a / rv b"] by simp
    have "\<bar>rv (js_div a b) * rv b - rv a\<bar> = \<bar>rv (js_div a b) - rv a / rv b\<bar> * \<bar>rv b\<bar>"
      using b0 by (simp add: abs_mult [symmetric] field_simps)
    also have "\<dots> \<le> (\<bar>rv a / rv b\<bar> / 2 ^ 53 + two_pow (- 1075)) * \<bar>rv b\<bar>"
      using e by (intro mult_right_mono) simp_all
    also have "\<dots> = \<bar>rv a\<bar> / 2 ^ 53 + \<bar>rv b\<bar> * two_pow (- 1075)"
      using b0 by (simp add: field_simps abs_mult)
    finally show ?thesis .
  qed
qed

text \<open>
  The four roundings from the product \<open>d * t\<close> to the stored sum \<open>d * t + o\<close>, as a fact
  of linear arithmetic on the magnitudes and the errors.
\<close>

lemma four_roundings:
  fixes Y O' e1 e2 e3 e4 A1 A2 Aa A3 t64 t32 :: real
  assumes "0 \<le> Y" "0 \<le> O'" "0 \<le> t64" "t64 \<le> t32"
    and "e1 \<le> Y / 2 ^ 53 + t64" and "A1 \<le> Y + e1"
    and "e2 \<le> A1 / 2 ^ 24 + t32" and "A2 \<le> A1 + e2"
    and "Aa \<le> A2 + O'"
    and "e3 \<le> Aa / 2 ^ 53 + t64" and "A3 \<le> Aa + e3"
    and "e4 \<le> A3 / 2 ^ 24 + t32"
  shows "e1 + e2 + e3 + e4 \<le> (O' + Y) / 2 ^ 22 + 8 * t32"
proof -
  have n: "(2::real) ^ 53 = 9007199254740992" "(2::real) ^ 24 = 16777216"
    "(2::real) ^ 22 = 4194304"
    by simp_all
  note h = assms [unfolded n]
  have "e1 + e2 + e3 + e4 \<le> O' / 4194304 + Y / 4194304 + 8 * t32"
    using h by linarith
  then show ?thesis unfolding n by (simp add: add_divide_distrib)
qed

lemma abs_step: "\<bar>a\<bar> \<le> \<bar>b\<bar> + \<bar>a - b\<bar>" for a b :: real
  by linarith

lemma point_component:
  assumes "is_fin (fround (js_add (fround (js_mul d t)) c))"
  shows "is_fin d \<and> is_fin t \<and> is_fin c
       \<and> \<bar>rv (fround (js_add (fround (js_mul d t)) c)) - (rv c + rv d * rv t)\<bar>
           \<le> (\<bar>rv c\<bar> + \<bar>rv d * rv t\<bar>) / 2 ^ 22 + two_pow (- 147)"
proof -
  define y where "y = rv d * rv t"
  define s1 where "s1 = js_mul d t"
  define s where "s = fround s1"
  define s2 where "s2 = js_add s c"
  define q where "q = fround s2"
  have fq: "is_fin q" using assms by (simp add: q_def s2_def s_def s1_def)
  have 4: "is_fin s2" "\<bar>rv q - rv s2\<bar> \<le> \<bar>rv s2\<bar> / 2 ^ 24 + two_pow (- 150)"
    using fround_err [of s2] fq by (simp_all add: q_def)
  have 3: "is_fin s" "is_fin c" "\<bar>rv s2 - (rv s + rv c)\<bar> \<le> \<bar>rv s + rv c\<bar> / 2 ^ 53 + two_pow (- 1075)"
    using add_err [of s c] 4(1) by (simp_all add: s2_def)
  have 2: "is_fin s1" "\<bar>rv s - rv s1\<bar> \<le> \<bar>rv s1\<bar> / 2 ^ 24 + two_pow (- 150)"
    using fround_err [of s1] 3(1) by (simp_all add: s_def)
  have 1: "is_fin d" "is_fin t" "\<bar>rv s1 - y\<bar> \<le> \<bar>y\<bar> / 2 ^ 53 + two_pow (- 1075)"
    using mul_err [of d t] 2(1) by (simp_all add: s1_def y_def)
  have "\<bar>rv s1 - y\<bar> + \<bar>rv s - rv s1\<bar> + \<bar>rv s2 - (rv s + rv c)\<bar> + \<bar>rv q - rv s2\<bar>
      \<le> (\<bar>rv c\<bar> + \<bar>y\<bar>) / 2 ^ 22 + 8 * two_pow (- 150)"
  proof (rule four_roundings)
    show "0 \<le> \<bar>y\<bar>" "0 \<le> \<bar>rv c\<bar>" by simp_all
    show "0 \<le> two_pow (- 1075)" using two_pow_pos [of "- 1075"] by simp
    show "two_pow (- 1075) \<le> two_pow (- 150)" by (rule two_pow_mono) simp
    show "\<bar>rv s1 - y\<bar> \<le> \<bar>y\<bar> / 2 ^ 53 + two_pow (- 1075)" by (rule 1)
    show "\<bar>rv s1\<bar> \<le> \<bar>y\<bar> + \<bar>rv s1 - y\<bar>" by (rule abs_step)
    show "\<bar>rv s - rv s1\<bar> \<le> \<bar>rv s1\<bar> / 2 ^ 24 + two_pow (- 150)" by (rule 2)
    show "\<bar>rv s\<bar> \<le> \<bar>rv s1\<bar> + \<bar>rv s - rv s1\<bar>" by (rule abs_step)
    show "\<bar>rv s + rv c\<bar> \<le> \<bar>rv s\<bar> + \<bar>rv c\<bar>" by (rule abs_triangle_ineq)
    show "\<bar>rv s2 - (rv s + rv c)\<bar> \<le> \<bar>rv s + rv c\<bar> / 2 ^ 53 + two_pow (- 1075)" by (rule 3)
    show "\<bar>rv s2\<bar> \<le> \<bar>rv s + rv c\<bar> + \<bar>rv s2 - (rv s + rv c)\<bar>" by (rule abs_step)
    show "\<bar>rv q - rv s2\<bar> \<le> \<bar>rv s2\<bar> / 2 ^ 24 + two_pow (- 150)" by (rule 4)
  qed
  moreover have "\<bar>rv q - (rv c + y)\<bar>
      \<le> \<bar>rv s1 - y\<bar> + \<bar>rv s - rv s1\<bar> + \<bar>rv s2 - (rv s + rv c)\<bar> + \<bar>rv q - rv s2\<bar>"
    by linarith
  moreover have "8 * two_pow (- 150) = two_pow (- 147)"
    using two_pow_add [of 3 "- 150"] by (simp add: two_pow_def [of 3])
  ultimately have "\<bar>rv q - (rv c + y)\<bar> \<le> (\<bar>rv c\<bar> + \<bar>y\<bar>) / 2 ^ 22 + two_pow (- 147)"
    by linarith
  then show ?thesis
    using 1(1,2) 3(2) by (simp add: q_def s2_def s_def s1_def y_def)
qed

lemma vec3_at_cases: "i < 3 \<Longrightarrow> P (vec3_at v 0) \<Longrightarrow> P (vec3_at v 1) \<Longrightarrow> P (vec3_at v 2) \<Longrightarrow> P (vec3_at v i)"
  using less_3_cases [of i] by auto

lemma five_roundings:
  fixes X0 X1 X2 e0 e1 e2 eh er G0 G1 G2 H' Hh R' t :: real
  assumes "0 \<le> X0" "0 \<le> X1" "0 \<le> X2" "0 \<le> t"
    and "e0 \<le> X0 / 2 ^ 53 + t" "G0 \<le> X0 + e0"
    and "e1 \<le> X1 / 2 ^ 53 + t" "G1 \<le> X1 + e1"
    and "e2 \<le> X2 / 2 ^ 53 + t" "G2 \<le> X2 + e2"
    and "H' \<le> G0 + G1" "eh \<le> H' / 2 ^ 53 + t" "Hh \<le> H' + eh"
    and "R' \<le> Hh + G2" "er \<le> R' / 2 ^ 53 + t"
  shows "e0 + e1 + e2 + eh + er \<le> (X0 + X1 + X2) / 2 ^ 51 + 6 * t"
proof -
  have n: "(2::real) ^ 53 = 9007199254740992" "(2::real) ^ 51 = 2251799813685248"
    by simp_all
  note h = assms [unfolded n]
  have "e0 + e1 + e2 + eh + er \<le> X0 / 2251799813685248 + X1 / 2251799813685248
      + X2 / 2251799813685248 + 6 * t"
    using h by linarith
  then show ?thesis unfolding n by (simp add: add_divide_distrib)
qed

lemma dot_err:
  assumes "is_fin (vec3_dot a b)"
  shows "fin3 a \<and> fin3 b
       \<and> \<bar>rv (vec3_dot a b) - rdot a b\<bar> \<le> adot a b / 2 ^ 51 + 6 * two_pow (- 1075)"
proof -
  obtain a0 a1 a2 where a: "a = (a0, a1, a2)" by (cases a)
  obtain b0 b1 b2 where b: "b = (b0, b1, b2)" by (cases b)
  define g0 where "g0 = js_mul a0 b0"
  define g1 where "g1 = js_mul a1 b1"
  define g2 where "g2 = js_mul a2 b2"
  define h where "h = js_add g0 g1"
  define r where "r = js_add h g2"
  define x0 where "x0 = rv a0 * rv b0"
  define x1 where "x1 = rv a1 * rv b1"
  define x2 where "x2 = rv a2 * rv b2"
  have fr: "is_fin r" using assms by (simp add: a b r_def h_def g0_def g1_def g2_def)
  have 5: "is_fin h" "is_fin g2" "\<bar>rv r - (rv h + rv g2)\<bar> \<le> \<bar>rv h + rv g2\<bar> / 2 ^ 53 + two_pow (- 1075)"
    using add_err [of h g2] fr by (simp_all add: r_def)
  have 4: "is_fin g0" "is_fin g1" "\<bar>rv h - (rv g0 + rv g1)\<bar> \<le> \<bar>rv g0 + rv g1\<bar> / 2 ^ 53 + two_pow (- 1075)"
    using add_err [of g0 g1] 5(1) by (simp_all add: h_def)
  have 0: "is_fin a0" "is_fin b0" "\<bar>rv g0 - x0\<bar> \<le> \<bar>x0\<bar> / 2 ^ 53 + two_pow (- 1075)"
    using mul_err [of a0 b0] 4(1) by (simp_all add: g0_def x0_def)
  have 1: "is_fin a1" "is_fin b1" "\<bar>rv g1 - x1\<bar> \<le> \<bar>x1\<bar> / 2 ^ 53 + two_pow (- 1075)"
    using mul_err [of a1 b1] 4(2) by (simp_all add: g1_def x1_def)
  have 2: "is_fin a2" "is_fin b2" "\<bar>rv g2 - x2\<bar> \<le> \<bar>x2\<bar> / 2 ^ 53 + two_pow (- 1075)"
    using mul_err [of a2 b2] 5(2) by (simp_all add: g2_def x2_def)
  have "\<bar>rv g0 - x0\<bar> + \<bar>rv g1 - x1\<bar> + \<bar>rv g2 - x2\<bar> + \<bar>rv h - (rv g0 + rv g1)\<bar>
      + \<bar>rv r - (rv h + rv g2)\<bar> \<le> (\<bar>x0\<bar> + \<bar>x1\<bar> + \<bar>x2\<bar>) / 2 ^ 51 + 6 * two_pow (- 1075)"
  proof (rule five_roundings)
    show "0 \<le> \<bar>x0\<bar>" "0 \<le> \<bar>x1\<bar>" "0 \<le> \<bar>x2\<bar>" by simp_all
    show "0 \<le> two_pow (- 1075)" using two_pow_pos [of "- 1075"] by simp
    show "\<bar>rv g0 - x0\<bar> \<le> \<bar>x0\<bar> / 2 ^ 53 + two_pow (- 1075)" by (rule 0)
    show "\<bar>rv g1 - x1\<bar> \<le> \<bar>x1\<bar> / 2 ^ 53 + two_pow (- 1075)" by (rule 1)
    show "\<bar>rv g2 - x2\<bar> \<le> \<bar>x2\<bar> / 2 ^ 53 + two_pow (- 1075)" by (rule 2)
    show "\<bar>rv g0\<bar> \<le> \<bar>x0\<bar> + \<bar>rv g0 - x0\<bar>" by (rule abs_step)
    show "\<bar>rv g1\<bar> \<le> \<bar>x1\<bar> + \<bar>rv g1 - x1\<bar>" by (rule abs_step)
    show "\<bar>rv g2\<bar> \<le> \<bar>x2\<bar> + \<bar>rv g2 - x2\<bar>" by (rule abs_step)
    show "\<bar>rv g0 + rv g1\<bar> \<le> \<bar>rv g0\<bar> + \<bar>rv g1\<bar>" by (rule abs_triangle_ineq)
    show "\<bar>rv h - (rv g0 + rv g1)\<bar> \<le> \<bar>rv g0 + rv g1\<bar> / 2 ^ 53 + two_pow (- 1075)" by (rule 4)
    show "\<bar>rv h\<bar> \<le> \<bar>rv g0 + rv g1\<bar> + \<bar>rv h - (rv g0 + rv g1)\<bar>" by (rule abs_step)
    show "\<bar>rv h + rv g2\<bar> \<le> \<bar>rv h\<bar> + \<bar>rv g2\<bar>" by (rule abs_triangle_ineq)
    show "\<bar>rv r - (rv h + rv g2)\<bar> \<le> \<bar>rv h + rv g2\<bar> / 2 ^ 53 + two_pow (- 1075)" by (rule 5)
  qed
  moreover have "\<bar>rv r - (x0 + x1 + x2)\<bar> \<le> \<bar>rv g0 - x0\<bar> + \<bar>rv g1 - x1\<bar> + \<bar>rv g2 - x2\<bar>
      + \<bar>rv h - (rv g0 + rv g1)\<bar> + \<bar>rv r - (rv h + rv g2)\<bar>"
    by linarith
  ultimately have "\<bar>rv r - (x0 + x1 + x2)\<bar> \<le> (\<bar>x0\<bar> + \<bar>x1\<bar> + \<bar>x2\<bar>) / 2 ^ 51 + 6 * two_pow (- 1075)"
    by linarith
  then show ?thesis
    using 0(1,2) 1(1,2) 2(1,2)
    by (simp add: a b r_def h_def g0_def g1_def g2_def x0_def x1_def x2_def)
qed

lemma two_roundings:
  fixes P' O' e1 e2 A S t64 t32 :: real
  assumes "0 \<le> P'" "0 \<le> O'" "0 \<le> t64" "t64 \<le> t32"
    and "A \<le> P' + O'" "e1 \<le> A / 2 ^ 53 + t64" "S \<le> A + e1" "e2 \<le> S / 2 ^ 24 + t32"
  shows "e1 + e2 \<le> (P' + O') / 2 ^ 23 + 3 * t32"
proof -
  have n: "(2::real) ^ 53 = 9007199254740992" "(2::real) ^ 24 = 16777216"
    "(2::real) ^ 23 = 8388608"
    by simp_all
  note h = assms [unfolded n]
  have "e1 + e2 \<le> P' / 8388608 + O' / 8388608 + 3 * t32"
    using h by linarith
  then show ?thesis unfolding n by (simp add: add_divide_distrib)
qed

lemma rv_neg: "rv (js_neg a) = - rv a"
  by (cases a) simp_all

lemma fin_neg: "is_fin (js_neg a) = is_fin a"
  by (cases a) simp_all

lemma sub_err:
  assumes "is_fin (fround (js_sub p c))"
  shows "is_fin p \<and> is_fin c
       \<and> \<bar>rv (fround (js_sub p c)) - (rv p - rv c)\<bar>
           \<le> (\<bar>rv p\<bar> + \<bar>rv c\<bar>) / 2 ^ 23 + 3 * two_pow (- 150)"
proof -
  define s where "s = js_sub p c"
  have 2: "is_fin s" "\<bar>rv (fround s) - rv s\<bar> \<le> \<bar>rv s\<bar> / 2 ^ 24 + two_pow (- 150)"
    using fround_err [of s] assms by (simp_all add: s_def)
  have 1: "is_fin p" "is_fin c" "\<bar>rv s - (rv p - rv c)\<bar> \<le> \<bar>rv p - rv c\<bar> / 2 ^ 53 + two_pow (- 1075)"
    using add_err [of p "js_neg c"] 2(1) by (simp_all add: s_def js_sub_def rv_neg fin_neg)
  have "\<bar>rv s - (rv p - rv c)\<bar> + \<bar>rv (fround s) - rv s\<bar>
      \<le> (\<bar>rv p\<bar> + \<bar>rv c\<bar>) / 2 ^ 23 + 3 * two_pow (- 150)"
  proof (rule two_roundings)
    show "0 \<le> \<bar>rv p\<bar>" "0 \<le> \<bar>rv c\<bar>" by simp_all
    show "0 \<le> two_pow (- 1075)" using two_pow_pos [of "- 1075"] by simp
    show "two_pow (- 1075) \<le> two_pow (- 150)" by (rule two_pow_mono) simp
    show "\<bar>rv p - rv c\<bar> \<le> \<bar>rv p\<bar> + \<bar>rv c\<bar>" by linarith
    show "\<bar>rv s - (rv p - rv c)\<bar> \<le> \<bar>rv p - rv c\<bar> / 2 ^ 53 + two_pow (- 1075)" by (rule 1)
    show "\<bar>rv s\<bar> \<le> \<bar>rv p - rv c\<bar> + \<bar>rv s - (rv p - rv c)\<bar>" by (rule abs_step)
    show "\<bar>rv (fround s) - rv s\<bar> \<le> \<bar>rv s\<bar> / 2 ^ 24 + two_pow (- 150)" by (rule 2)
  qed
  moreover have "\<bar>rv (fround s) - (rv p - rv c)\<bar>
      \<le> \<bar>rv s - (rv p - rv c)\<bar> + \<bar>rv (fround s) - rv s\<bar>"
    by linarith
  ultimately show ?thesis
    using 1(1,2) by (simp add: s_def)
qed

lemma div_fin:
  assumes "is_fin (js_div a b)" and "is_fin b"
  shows "is_fin a"
  using assms by (cases a; cases b; auto simp: js_div_def signed_inf_def split: if_splits)

lemma plane_component:
  fixes NO NP NY nT ea ee dn :: real
  assumes "0 \<le> NO" "0 \<le> NP" "0 \<le> NY" "0 \<le> nT"
    and "ea \<le> (NO + NY) / 2 ^ 22 + 8 * nT"
    and "ee \<le> (NP + NO) / 2 ^ 23 + 3 * nT"
    and "dn \<le> NP + NO + ee"
  shows "ea + ee + dn / 2 ^ 50 \<le> (NO + NP + NY) * (7 / 2 ^ 24) + 12 * nT"
proof -
  have n: "(2::real) ^ 22 = 4194304" "(2::real) ^ 23 = 8388608" "(2::real) ^ 50 = 1125899906842624"
    "(2::real) ^ 24 = 16777216"
    by simp_all
  have a: "ea \<le> NO / 4194304 + NY / 4194304 + 8 * nT"
    using assms(5) unfolding n by (simp add: add_divide_distrib)
  have e: "ee \<le> NP / 8388608 + NO / 8388608 + 3 * nT"
    using assms(6) unfolding n by (simp add: add_divide_distrib)
  have "ea + ee + dn / 1125899906842624
      \<le> NO * (7 / 16777216) + NP * (7 / 16777216) + NY * (7 / 16777216) + 12 * nT"
    using a e assms(1-4,7) by linarith
  then show ?thesis unfolding n by (simp add: algebra_simps add_divide_distrib)
qed

lemma plane_sum:
  fixes c0 c1 c2 dn0 dn1 dn2 B nT ed ww ec eb NY tT vT T :: real
  assumes "0 \<le> B" "0 \<le> nT" "0 \<le> NY" "0 \<le> tT" "0 \<le> vT" "0 \<le> T"
    and "0 \<le> dn0" "0 \<le> dn1" "0 \<le> dn2"
    and "c0 + c1 + c2 + (dn0 + dn1 + dn2) / 2 ^ 50 \<le> B * (7 / 2 ^ 24) + 12 * nT"
    and "ed \<le> (dn0 + dn1 + dn2) / 2 ^ 51 + 6 * T"
    and "ww \<le> dn0 + dn1 + dn2 + ed"
    and "ec \<le> ww / 2 ^ 53 + vT"
    and "eb \<le> NY / 2 ^ 51 + 6 * tT"
    and "NY \<le> B"
  shows "c0 + c1 + c2 + eb + ec + ed \<le> B / 2 ^ 21 + 16 * nT + 16 * (tT + vT + T)"
proof -
  have n: "(2::real) ^ 21 = 2097152" "(2::real) ^ 24 = 16777216" "(2::real) ^ 50 = 1125899906842624"
    "(2::real) ^ 51 = 2251799813685248" "(2::real) ^ 53 = 9007199254740992"
    by simp_all
  define S where "S = dn0 + dn1 + dn2"
  have s: "0 \<le> S" using assms(7-9) by (simp add: S_def)
  note h = assms(10-14) [unfolded n, folded S_def]
  have 1: "ed + ec \<le> S / 1125899906842624 + 7 * T + vT"
    using h(2-4) s assms(5,6) by linarith
  have 2: "c0 + c1 + c2 + S / 1125899906842624 \<le> B * (7 / 16777216) + 12 * nT"
    using h(1) by simp
  have "c0 + c1 + c2 + eb + ec + ed \<le> B / 2097152 + 16 * nT + 16 * tT + 16 * vT + 16 * T"
    using 1 2 h(5) assms(1-6,15) by linarith
  then show ?thesis unfolding n by (simp add: algebra_simps add_divide_distrib)
qed

lemma abs3: "\<bar>a + b + c\<bar> \<le> \<bar>a\<bar> + \<bar>b\<bar> + \<bar>c\<bar>" for a b c :: real
  by linarith

lemma two_pow_16: "16 * two_pow k = two_pow (k + 4)"
  using two_pow_add [of 4 k] by (simp add: two_pow_def [of 4] add.commute)

lemma two_pow_8: "8 * two_pow k = two_pow (k + 3)"
  using two_pow_add [of 3 k] by (simp add: two_pow_def [of 3] add.commute)

lemma comp_real:
  fixes N c P D t Q d T :: real
  assumes "\<bar>Q - (c + D * t)\<bar> \<le> (\<bar>c\<bar> + \<bar>D * t\<bar>) / 2 ^ 22 + 8 * T"
    and "\<bar>d - (P - c)\<bar> \<le> (\<bar>P\<bar> + \<bar>c\<bar>) / 2 ^ 23 + 3 * T"
    and "0 \<le> T"
  shows "\<bar>N * (Q - (c + D * t))\<bar> + \<bar>N * (d - (P - c))\<bar> + \<bar>d * N\<bar> / 2 ^ 50
       \<le> (\<bar>N * c\<bar> + \<bar>N * P\<bar> + \<bar>N * D\<bar> * \<bar>t\<bar>) * (7 / 2 ^ 24) + 12 * (\<bar>N\<bar> * T)"
proof -
  have "\<bar>N\<bar> * \<bar>Q - (c + D * t)\<bar> + \<bar>N\<bar> * \<bar>d - (P - c)\<bar> + (\<bar>N\<bar> * \<bar>d\<bar>) / 2 ^ 50
       \<le> (\<bar>N\<bar> * \<bar>c\<bar> + \<bar>N\<bar> * \<bar>P\<bar> + \<bar>N\<bar> * \<bar>D * t\<bar>) * (7 / 2 ^ 24) + 12 * (\<bar>N\<bar> * T)"
  proof (rule plane_component)
    show "0 \<le> \<bar>N\<bar> * \<bar>c\<bar>" "0 \<le> \<bar>N\<bar> * \<bar>P\<bar>" "0 \<le> \<bar>N\<bar> * \<bar>D * t\<bar>" by simp_all
    show "0 \<le> \<bar>N\<bar> * T" using assms(3) by simp
    have "\<bar>N\<bar> * \<bar>Q - (c + D * t)\<bar> \<le> \<bar>N\<bar> * ((\<bar>c\<bar> + \<bar>D * t\<bar>) / 2 ^ 22 + 8 * T)"
      using assms(1) by (intro mult_left_mono) simp_all
    then show "\<bar>N\<bar> * \<bar>Q - (c + D * t)\<bar> \<le> (\<bar>N\<bar> * \<bar>c\<bar> + \<bar>N\<bar> * \<bar>D * t\<bar>) / 2 ^ 22 + 8 * (\<bar>N\<bar> * T)"
      by (simp add: algebra_simps add_divide_distrib)
    have "\<bar>N\<bar> * \<bar>d - (P - c)\<bar> \<le> \<bar>N\<bar> * ((\<bar>P\<bar> + \<bar>c\<bar>) / 2 ^ 23 + 3 * T)"
      using assms(2) by (intro mult_left_mono) simp_all
    then show e: "\<bar>N\<bar> * \<bar>d - (P - c)\<bar> \<le> (\<bar>N\<bar> * \<bar>P\<bar> + \<bar>N\<bar> * \<bar>c\<bar>) / 2 ^ 23 + 3 * (\<bar>N\<bar> * T)"
      by (simp add: algebra_simps add_divide_distrib)
    have "\<bar>d\<bar> \<le> \<bar>P\<bar> + \<bar>c\<bar> + \<bar>d - (P - c)\<bar>" by linarith
    then have "\<bar>N\<bar> * \<bar>d\<bar> \<le> \<bar>N\<bar> * (\<bar>P\<bar> + \<bar>c\<bar> + \<bar>d - (P - c)\<bar>)"
      by (intro mult_left_mono) simp_all
    then show "\<bar>N\<bar> * \<bar>d\<bar> \<le> \<bar>N\<bar> * \<bar>P\<bar> + \<bar>N\<bar> * \<bar>c\<bar> + \<bar>N\<bar> * \<bar>d - (P - c)\<bar>"
      by (simp add: algebra_simps)
  qed
  then show ?thesis
    by (simp add: abs_mult mult.commute mult.left_commute)
qed

lemma on_plane:
  assumes hit: "intersectRayWithPlane rs rd planePos planeNormal = Some (time, q)"
    and fq: "fin3 q" and fv: "is_fin (vec3_dot rd planeNormal)"
  shows "\<bar>rdot planeNormal q - rdot planeNormal planePos\<bar>
       \<le> (adot planeNormal rs + adot planeNormal planePos
            + adot planeNormal rd * \<bar>rv time\<bar>) / 2 ^ 21
         + norm1 planeNormal * two_pow (- 146)
         + (\<bar>rv time\<bar> + \<bar>rv (vec3_dot rd planeNormal)\<bar> + 1) * two_pow (- 1071)"
proof -
  obtain o0 o1 o2 where rs: "rs = (o0, o1, o2)" by (cases rs)
  obtain d0 d1 d2 where rd: "rd = (d0, d1, d2)" by (cases rd)
  obtain p0 p1 p2 where pp: "planePos = (p0, p1, p2)" by (cases planePos)
  obtain n0 n1 n2 where pn: "planeNormal = (n0, n1, n2)" by (cases planeNormal)
  define e0 where "e0 = fround (js_sub p0 o0)"
  define e1 where "e1 = fround (js_sub p1 o1)"
  define e2 where "e2 = fround (js_sub p2 o2)"
  define w where "w = vec3_dot (e0, e1, e2) planeNormal"
  define v where "v = vec3_dot rd planeNormal"
  define q0 where "q0 = fround (js_add (fround (js_mul d0 time)) o0)"
  define q1 where "q1 = fround (js_add (fround (js_mul d1 time)) o1)"
  define q2 where "q2 = fround (js_add (fround (js_mul d2 time)) o2)"
  define T where "T = two_pow (- 150)"
  define U where "U = two_pow (- 1075)"
  have T0: "0 \<le> T" and U0: "0 \<le> U"
    using two_pow_pos [of "- 150"] two_pow_pos [of "- 1075"] by (simp_all add: T_def U_def)
  have T8: "two_pow (- 147) = 8 * T" using two_pow_8 [of "- 150"] by (simp add: T_def)
  have t: "time = js_div w v" and q: "q = (q0, q1, q2)"
    using hit
    by (auto simp: intersectRayWithPlane_def Let_def w_def v_def rs rd pp e0_def e1_def e2_def
        q0_def q1_def q2_def split: if_splits)
  have fq': "is_fin q0" "is_fin q1" "is_fin q2" using fq by (simp_all add: q)
  note c0 = point_component [of d0 time o0, folded q0_def, OF fq'(1), unfolded T8]
  note c1 = point_component [of d1 time o1, folded q1_def, OF fq'(2), unfolded T8]
  note c2 = point_component [of d2 time o2, folded q2_def, OF fq'(3), unfolded T8]
  have ft: "is_fin time" using c0 by simp
  have fw: "is_fin w" using ft fv div_fin [of w v] by (simp add: t v_def)
  note dw = dot_err [OF fw [unfolded w_def], folded w_def U_def]
  note dv = dot_err [OF fv, folded v_def U_def]
  have fe: "is_fin e0" "is_fin e1" "is_fin e2" using dw by simp_all
  note s0 = sub_err [of p0 o0, folded e0_def, OF fe(1), folded T_def]
  note s1 = sub_err [of p1 o1, folded e1_def, OF fe(2), folded T_def]
  note s2 = sub_err [of p2 o2, folded e2_def, OF fe(3), folded T_def]
  note k0 = comp_real [of "rv q0" "rv o0" "rv d0" "rv time" T "rv e0" "rv p0" "rv n0",
      OF c0 [THEN conjunct2, THEN conjunct2, THEN conjunct2]
         s0 [THEN conjunct2, THEN conjunct2] T0]
  note k1 = comp_real [of "rv q1" "rv o1" "rv d1" "rv time" T "rv e1" "rv p1" "rv n1",
      OF c1 [THEN conjunct2, THEN conjunct2, THEN conjunct2]
         s1 [THEN conjunct2, THEN conjunct2] T0]
  note k2 = comp_real [of "rv q2" "rv o2" "rv d2" "rv time" T "rv e2" "rv p2" "rv n2",
      OF c2 [THEN conjunct2, THEN conjunct2, THEN conjunct2]
         s2 [THEN conjunct2, THEN conjunct2] T0]
  define B where "B = adot planeNormal rs + adot planeNormal planePos
      + adot planeNormal rd * \<bar>rv time\<bar>"
  define x0 where "x0 = rv n0 * (rv q0 - (rv o0 + rv d0 * rv time))"
  define x1 where "x1 = rv n1 * (rv q1 - (rv o1 + rv d1 * rv time))"
  define x2 where "x2 = rv n2 * (rv q2 - (rv o2 + rv d2 * rv time))"
  define z0 where "z0 = rv n0 * (rv e0 - (rv p0 - rv o0))"
  define z1 where "z1 = rv n1 * (rv e1 - (rv p1 - rv o1))"
  define z2 where "z2 = rv n2 * (rv e2 - (rv p2 - rv o2))"
  define xb where "xb = rv time * (rdot rd planeNormal - rv v)"
  define xc where "xc = rv time * rv v - rv w"
  define xd where "xd = rv w - rdot (e0, e1, e2) planeNormal"
  have ident: "rdot planeNormal q - rdot planeNormal planePos
      = (x0 + z0) + (x1 + z1) + (x2 + z2) + (xb + xc + xd)"
    by (simp add: q pn pp rd x0_def x1_def x2_def z0_def z1_def z2_def xb_def xc_def xd_def
        algebra_simps)
  have sumk: "(\<bar>x0\<bar> + \<bar>z0\<bar>) + (\<bar>x1\<bar> + \<bar>z1\<bar>) + (\<bar>x2\<bar> + \<bar>z2\<bar>)
      + (\<bar>rv e0 * rv n0\<bar> + \<bar>rv e1 * rv n1\<bar> + \<bar>rv e2 * rv n2\<bar>) / 2 ^ 50
      \<le> B * (7 / 2 ^ 24) + 12 * (norm1 planeNormal * T)"
    using k0 k1 k2 unfolding x0_def x1_def x2_def z0_def z1_def z2_def B_def
    by (simp add: pn rs pp rd algebra_simps add_divide_distrib)
  have "(\<bar>x0\<bar> + \<bar>z0\<bar>) + (\<bar>x1\<bar> + \<bar>z1\<bar>) + (\<bar>x2\<bar> + \<bar>z2\<bar>) + \<bar>xb\<bar> + \<bar>xc\<bar> + \<bar>xd\<bar>
      \<le> B / 2 ^ 21 + 16 * (norm1 planeNormal * T)
        + 16 * (\<bar>rv time\<bar> * U + \<bar>rv v\<bar> * U + U)"
  proof (rule plane_sum [where NY = "adot planeNormal rd * \<bar>rv time\<bar>"
        and ww = "\<bar>rv w\<bar>" and ?dn0.0 = "\<bar>rv e0 * rv n0\<bar>" and ?dn1.0 = "\<bar>rv e1 * rv n1\<bar>"
        and ?dn2.0 = "\<bar>rv e2 * rv n2\<bar>"])
    show "0 \<le> B" by (simp add: B_def pn rs pp rd)
    show "0 \<le> norm1 planeNormal * T" using T0 by (simp add: pn)
    show "0 \<le> adot planeNormal rd * \<bar>rv time\<bar>" by (simp add: pn rd)
    show "0 \<le> \<bar>rv time\<bar> * U" "0 \<le> \<bar>rv v\<bar> * U" "0 \<le> U" using U0 by simp_all
    show "0 \<le> \<bar>rv e0 * rv n0\<bar>" "0 \<le> \<bar>rv e1 * rv n1\<bar>" "0 \<le> \<bar>rv e2 * rv n2\<bar>" by simp_all
    show "(\<bar>x0\<bar> + \<bar>z0\<bar>) + (\<bar>x1\<bar> + \<bar>z1\<bar>) + (\<bar>x2\<bar> + \<bar>z2\<bar>)
      + (\<bar>rv e0 * rv n0\<bar> + \<bar>rv e1 * rv n1\<bar> + \<bar>rv e2 * rv n2\<bar>) / 2 ^ 50
      \<le> B * (7 / 2 ^ 24) + 12 * (norm1 planeNormal * T)"
      by (rule sumk)
    show "\<bar>xd\<bar> \<le> (\<bar>rv e0 * rv n0\<bar> + \<bar>rv e1 * rv n1\<bar> + \<bar>rv e2 * rv n2\<bar>) / 2 ^ 51 + 6 * U"
      using dw by (simp add: xd_def pn)
    show "\<bar>rv w\<bar> \<le> \<bar>rv e0 * rv n0\<bar> + \<bar>rv e1 * rv n1\<bar> + \<bar>rv e2 * rv n2\<bar> + \<bar>xd\<bar>"
      unfolding xd_def by (simp add: pn)
    show "\<bar>xc\<bar> \<le> \<bar>rv w\<bar> / 2 ^ 53 + \<bar>rv v\<bar> * U"
      using div_err [of w v] ft fv by (simp add: xc_def t v_def U_def)
    have "\<bar>rv time\<bar> * \<bar>rdot rd planeNormal - rv v\<bar>
        \<le> \<bar>rv time\<bar> * (adot rd planeNormal / 2 ^ 51 + 6 * U)"
      using dv by (intro mult_left_mono) (simp_all add: abs_minus_commute)
    moreover have "\<bar>xb\<bar> = \<bar>rv time\<bar> * \<bar>rdot rd planeNormal - rv v\<bar>"
      by (simp only: xb_def abs_mult)
    moreover have "adot rd planeNormal = adot planeNormal rd"
      by (simp add: pn rd mult.commute)
    moreover have "\<bar>rv time\<bar> * (adot planeNormal rd / 2 ^ 51 + 6 * U)
        = adot planeNormal rd * \<bar>rv time\<bar> / 2 ^ 51 + 6 * (\<bar>rv time\<bar> * U)"
      by (simp add: algebra_simps)
    ultimately show "\<bar>xb\<bar> \<le> adot planeNormal rd * \<bar>rv time\<bar> / 2 ^ 51 + 6 * (\<bar>rv time\<bar> * U)"
      by (simp only:)
    show "adot planeNormal rd * \<bar>rv time\<bar> \<le> B" by (simp add: B_def pn rs pp rd)
  qed
  moreover have "\<bar>rdot planeNormal q - rdot planeNormal planePos\<bar>
      \<le> (\<bar>x0\<bar> + \<bar>z0\<bar>) + (\<bar>x1\<bar> + \<bar>z1\<bar>) + (\<bar>x2\<bar> + \<bar>z2\<bar>) + \<bar>xb\<bar> + \<bar>xc\<bar> + \<bar>xd\<bar>"
    unfolding ident by linarith
  moreover have "16 * (norm1 planeNormal * T) = norm1 planeNormal * two_pow (- 146)"
    using two_pow_16 [of "- 150"] by (simp add: T_def)
  moreover have "16 * (\<bar>rv time\<bar> * U + \<bar>rv v\<bar> * U + U)
      = (\<bar>rv time\<bar> + \<bar>rv v\<bar> + 1) * two_pow (- 1071)"
    using two_pow_16 [of "- 1075"] by (simp add: U_def algebra_simps)
  ultimately show ?thesis
    unfolding B_def v_def by linarith
qed

text \<open>
  C6, as amended. If \<open>intersectRayWithPlane(O, D, P, N)\<close> returns a hit \<open>(time, Q)\<close>, then
  \<open>time >= 0\<close> and \<open>Q\<close> is \<open>O + D * time\<close> as gl-matrix computes it, each product and
  each sum rounded to double and then to single precision. When \<open>Q\<close> is finite, so are
  \<open>time\<close>, \<open>O\<close> and \<open>D\<close>, and each component of \<open>Q\<close> differs from the real number
  \<open>O[i] + D[i] * time\<close> by at most \<open>(|O[i]| + |D[i] * time|) / 2 ^ 22 + 2 ^ -147\<close>. When
  \<open>time\<close> and \<open>dot(D, N)\<close> are finite, \<open>time\<close> solves the equation of the plane in the
  computed dot products up to the rounding of the quotient:
  \<open>|time * dot(D, N) - dot(P - O, N)| <= |dot(P - O, N)| / 2 ^ 53 + |dot(D, N)| * 2 ^ -1075\<close>.
  When \<open>Q\<close> and \<open>dot(D, N)\<close> are finite, \<open>Q\<close> lies on the plane up to rounding: the real
  number \<open>N . Q - N . P\<close> is at most
  \<open>(|N|.|O| + |N|.|P| + |N|.|D| * |time|) / 2 ^ 21 + (|N[0]| + |N[1]| + |N[2]|) * 2 ^ -146
    + (|time| + |dot(D, N)| + 1) * 2 ^ -1071\<close>
  in absolute value, where \<open>|N|.|O|\<close> is the dot product of the absolute values. Without
  the finiteness the statement fails: the single precision of \<open>Q\<close> can overflow.
\<close>

theorem intersectRayWithPlane_round_trip:
  assumes "intersectRayWithPlane rs rd planePos planeNormal = Some (time, q)"
  shows "js_ge time (Fin 0)
       \<and> q = vec3_add rs (vec3_scale rd time)
       \<and> (fin3 q \<longrightarrow> is_fin time \<and> fin3 rs \<and> fin3 rd
            \<and> (\<forall>i<3. \<bar>rv (vec3_at q i) - (rv (vec3_at rs i) + rv (vec3_at rd i) * rv time)\<bar>
                \<le> (\<bar>rv (vec3_at rs i)\<bar> + \<bar>rv (vec3_at rd i) * rv time\<bar>) / 2 ^ 22
                  + two_pow (- 147)))
       \<and> (is_fin time \<and> is_fin (vec3_dot rd planeNormal) \<longrightarrow>
            \<bar>rv time * rv (vec3_dot rd planeNormal)
              - rv (vec3_dot (vec3_sub planePos rs) planeNormal)\<bar>
            \<le> \<bar>rv (vec3_dot (vec3_sub planePos rs) planeNormal)\<bar> / 2 ^ 53
              + \<bar>rv (vec3_dot rd planeNormal)\<bar> * two_pow (- 1075))
       \<and> (fin3 q \<and> is_fin (vec3_dot rd planeNormal) \<longrightarrow>
            \<bar>rdot planeNormal q - rdot planeNormal planePos\<bar>
            \<le> (adot planeNormal rs + adot planeNormal planePos
                 + adot planeNormal rd * \<bar>rv time\<bar>) / 2 ^ 21
              + norm1 planeNormal * two_pow (- 146)
              + (\<bar>rv time\<bar> + \<bar>rv (vec3_dot rd planeNormal)\<bar> + 1) * two_pow (- 1071))"
proof -
  obtain o0 o1 o2 where rs: "rs = (o0, o1, o2)" by (cases rs)
  obtain d0 d1 d2 where rd: "rd = (d0, d1, d2)" by (cases rd)
  define w where "w = vec3_dot (vec3_sub planePos rs) planeNormal"
  define v where "v = vec3_dot rd planeNormal"
  have t: "time = js_div w v" and ge: "js_ge time (Fin 0)"
    and q: "q = vec3_add (vec3_scale rd time) rs"
    using assms by (auto simp: intersectRayWithPlane_def Let_def w_def v_def split: if_splits)
  have q': "q = (fround (js_add (fround (js_mul d0 time)) o0),
      fround (js_add (fround (js_mul d1 time)) o1), fround (js_add (fround (js_mul d2 time)) o2))"
    by (simp add: q rd rs)
  have a: "is_fin time \<and> fin3 rs \<and> fin3 rd
      \<and> (\<forall>i<3. \<bar>rv (vec3_at q i) - (rv (vec3_at rs i) + rv (vec3_at rd i) * rv time)\<bar>
                \<le> (\<bar>rv (vec3_at rs i)\<bar> + \<bar>rv (vec3_at rd i) * rv time\<bar>) / 2 ^ 22
                  + two_pow (- 147))" if f: "fin3 q"
  proof -
    note c0 = point_component [of d0 time o0] and c1 = point_component [of d1 time o1]
      and c2 = point_component [of d2 time o2]
    have f0: "is_fin (fround (js_add (fround (js_mul d0 time)) o0))"
      and f1: "is_fin (fround (js_add (fround (js_mul d1 time)) o1))"
      and f2: "is_fin (fround (js_add (fround (js_mul d2 time)) o2))"
      using f by (simp_all add: q')
    have "\<bar>rv (vec3_at q i) - (rv (vec3_at rs i) + rv (vec3_at rd i) * rv time)\<bar>
                \<le> (\<bar>rv (vec3_at rs i)\<bar> + \<bar>rv (vec3_at rd i) * rv time\<bar>) / 2 ^ 22
                  + two_pow (- 147)" if "i < 3" for i
      using less_3_cases [OF that] c0 [OF f0] c1 [OF f1] c2 [OF f2]
      by (auto simp: q' rs rd)
    then show ?thesis
      using c0 [OF f0] c1 [OF f1] c2 [OF f2] by (simp add: rs rd)
  qed
  have b: "\<bar>rv time * rv (vec3_dot rd planeNormal)
              - rv (vec3_dot (vec3_sub planePos rs) planeNormal)\<bar>
            \<le> \<bar>rv (vec3_dot (vec3_sub planePos rs) planeNormal)\<bar> / 2 ^ 53
              + \<bar>rv (vec3_dot rd planeNormal)\<bar> * two_pow (- 1075)"
    if "is_fin time \<and> is_fin (vec3_dot rd planeNormal)"
    using that div_err [of w v] by (simp add: t w_def v_def)
  have c: "\<bar>rdot planeNormal q - rdot planeNormal planePos\<bar>
            \<le> (adot planeNormal rs + adot planeNormal planePos
                 + adot planeNormal rd * \<bar>rv time\<bar>) / 2 ^ 21
              + norm1 planeNormal * two_pow (- 146)
              + (\<bar>rv time\<bar> + \<bar>rv (vec3_dot rd planeNormal)\<bar> + 1) * two_pow (- 1071)"
    if "fin3 q \<and> is_fin (vec3_dot rd planeNormal)"
    using that on_plane [OF assms] by simp
  show ?thesis
    using ge q a b c by (simp add: vec3_add_commute)
qed

lemma fl_pow2:
  assumes "emin \<le> int n" and "n < emax" and "1 \<le> p"
  shows "fl p emin emax (2 ^ n) = Fin (2 ^ n)"
proof -
  have "(1::int) < 2 ^ p" using assms(3) by (simp add: one_less_power)
  then show ?thesis
    using fl_exact [of 1 p emin "int n" emax] assms by (simp add: two_pow_nat)
qed

lemma fl_pow2_overflow:
  assumes "emin \<le> int n" and "emax \<le> n" and "1 \<le> p"
  shows "fl p emin emax (2 ^ n) = PosInf"
proof -
  have "(1::int) < 2 ^ p" using assms(3) by (simp add: one_less_power)
  then have "round_to p emin (2 ^ n) = 2 ^ n"
    using round_to_exact [of 1 p emin "int n"] assms by (simp add: two_pow_nat)
  then show ?thesis
    using assms(2) by (simp add: fl_def signed_inf_def)
qed

lemma big_eval_aux:
  "fl64 (2 ^ 100) = Fin (2 ^ 100)" "fl32 (2 ^ 100) = Fin (2 ^ 100)"
  "fl64 (2 ^ 200) = Fin (2 ^ 200)" "fl32 (2 ^ 200) = PosInf"
  unfolding fl64_def fl32_def
  by (rule fl_pow2 fl_pow2_overflow; simp)+

lemmas big_eval = big_eval_aux [simplified]

text \<open>
  The claim as first stated fails by overflow. The ray from the origin with direction
  \<open>(2 ^ 100, 0, 1)\<close> meets the plane \<open>z = 2 ^ 100\<close>, whose normal is \<open>(0, 0, 1)\<close>, at the
  time \<open>2 ^ 100\<close>. The first component of the point is \<open>2 ^ 200\<close>, a number, but not one
  of single precision: the stored point is \<open>(Infinity, 0, 2 ^ 100)\<close>, and
  \<open>dot(Q - P, N)\<close> is NaN, from \<open>Infinity * 0\<close>.
\<close>

theorem intersectRayWithPlane_overflow:
  "\<not> is_zero (vec3_at (Fin 0, Fin 0, Fin 1) 2)
   \<and> vec3_dot (Fin (2 ^ 100), Fin 0, Fin 1) (Fin 0, Fin 0, Fin 1) = Fin 1
   \<and> vec3_dot (vec3_sub (Fin 0, Fin 0, Fin (2 ^ 100)) (Fin 0, Fin 0, Fin 0)) (Fin 0, Fin 0, Fin 1)
       = Fin (2 ^ 100)
   \<and> intersectRayWithPlane (Fin 0, Fin 0, Fin 0) (Fin (2 ^ 100), Fin 0, Fin 1)
        (Fin 0, Fin 0, Fin (2 ^ 100)) (Fin 0, Fin 0, Fin 1)
       = Some (Fin (2 ^ 100), (PosInf, Fin 0, Fin (2 ^ 100)))
   \<and> vec3_dot (vec3_sub (PosInf, Fin 0, Fin (2 ^ 100)) (Fin 0, Fin 0, Fin (2 ^ 100)))
        (Fin 0, Fin 0, Fin 1) = NaN"
  by (simp add: intersectRayWithPlane_def Let_def js_eval big_eval)

theorem intersectRayWithPlane_round_trip_witness:
  "intersectRayWithPlane (Fin 1, Fin 2, Fin 3) (Fin 1, Fin 0, Fin (- 2)) (Fin 0, Fin 0, Fin 1)
        (Fin 0, Fin 1, Fin 1) = Some (Fin 2, (Fin 3, Fin 2, Fin (- 1)))
   \<and> fin3 (Fin 3, Fin 2, Fin (- 1))
   \<and> is_fin (Fin 2) \<and> is_fin (vec3_dot (Fin 1, Fin 0, Fin (- 2)) (Fin 0, Fin 1, Fin 1))
   \<and> js_ge (Fin 2) (Fin 0)
   \<and> (Fin 3, Fin 2, Fin (- 1)) = vec3_add (Fin 1, Fin 2, Fin 3) (vec3_scale (Fin 1, Fin 0, Fin (- 2)) (Fin 2))
   \<and> \<bar>rv (vec3_at (Fin 3, Fin 2, Fin (- 1)) 0)
         - (rv (vec3_at (Fin 1, Fin 2, Fin 3) 0) + rv (vec3_at (Fin 1, Fin 0, Fin (- 2)) 0) * rv (Fin 2))\<bar>
       \<le> (\<bar>rv (vec3_at (Fin 1, Fin 2, Fin 3) 0)\<bar> + \<bar>rv (vec3_at (Fin 1, Fin 0, Fin (- 2)) 0) * rv (Fin 2)\<bar>) / 2 ^ 22
         + two_pow (- 147)
   \<and> \<bar>rv (vec3_at (Fin 3, Fin 2, Fin (- 1)) 1)
         - (rv (vec3_at (Fin 1, Fin 2, Fin 3) 1) + rv (vec3_at (Fin 1, Fin 0, Fin (- 2)) 1) * rv (Fin 2))\<bar>
       \<le> (\<bar>rv (vec3_at (Fin 1, Fin 2, Fin 3) 1)\<bar> + \<bar>rv (vec3_at (Fin 1, Fin 0, Fin (- 2)) 1) * rv (Fin 2)\<bar>) / 2 ^ 22
         + two_pow (- 147)
   \<and> \<bar>rv (vec3_at (Fin 3, Fin 2, Fin (- 1)) 2)
         - (rv (vec3_at (Fin 1, Fin 2, Fin 3) 2) + rv (vec3_at (Fin 1, Fin 0, Fin (- 2)) 2) * rv (Fin 2))\<bar>
       \<le> (\<bar>rv (vec3_at (Fin 1, Fin 2, Fin 3) 2)\<bar> + \<bar>rv (vec3_at (Fin 1, Fin 0, Fin (- 2)) 2) * rv (Fin 2)\<bar>) / 2 ^ 22
         + two_pow (- 147)
   \<and> \<bar>rv (Fin 2) * rv (vec3_dot (Fin 1, Fin 0, Fin (- 2)) (Fin 0, Fin 1, Fin 1))
          - rv (vec3_dot (vec3_sub (Fin 0, Fin 0, Fin 1) (Fin 1, Fin 2, Fin 3)) (Fin 0, Fin 1, Fin 1))\<bar>
        \<le> \<bar>rv (vec3_dot (vec3_sub (Fin 0, Fin 0, Fin 1) (Fin 1, Fin 2, Fin 3)) (Fin 0, Fin 1, Fin 1))\<bar> / 2 ^ 53
          + \<bar>rv (vec3_dot (Fin 1, Fin 0, Fin (- 2)) (Fin 0, Fin 1, Fin 1))\<bar> * two_pow (- 1075)
   \<and> \<bar>rdot (Fin 0, Fin 1, Fin 1) (Fin 3, Fin 2, Fin (- 1)) - rdot (Fin 0, Fin 1, Fin 1) (Fin 0, Fin 0, Fin 1)\<bar>
        \<le> (adot (Fin 0, Fin 1, Fin 1) (Fin 1, Fin 2, Fin 3) + adot (Fin 0, Fin 1, Fin 1) (Fin 0, Fin 0, Fin 1)
             + adot (Fin 0, Fin 1, Fin 1) (Fin 1, Fin 0, Fin (- 2)) * \<bar>rv (Fin 2)\<bar>) / 2 ^ 21
          + norm1 (Fin 0, Fin 1, Fin 1) * two_pow (- 146)
          + (\<bar>rv (Fin 2)\<bar> + \<bar>rv (vec3_dot (Fin 1, Fin 0, Fin (- 2)) (Fin 0, Fin 1, Fin 1))\<bar> + 1) * two_pow (- 1071)"
proof -
  have h: "intersectRayWithPlane (Fin 1, Fin 2, Fin 3) (Fin 1, Fin 0, Fin (- 2)) (Fin 0, Fin 0, Fin 1)
        (Fin 0, Fin 1, Fin 1) = Some (Fin 2, (Fin 3, Fin 2, Fin (- 1)))"
    by (simp add: intersectRayWithPlane_def Let_def js_eval)
  have f: "fin3 (Fin 3, Fin 2, Fin (- 1))" by simp
  have g: "is_fin (Fin 2) \<and> is_fin (vec3_dot (Fin 1, Fin 0, Fin (- 2)) (Fin 0, Fin 1, Fin 1))"
    by (simp add: js_eval)
  have fg: "fin3 (Fin 3, Fin 2, Fin (- 1)) \<and> is_fin (vec3_dot (Fin 1, Fin 0, Fin (- 2)) (Fin 0, Fin 1, Fin 1))"
    using f g by simp
  note t = intersectRayWithPlane_round_trip [OF h]
  note b = t [THEN conjunct2, THEN conjunct2, THEN conjunct1, rule_format, OF f,
      THEN conjunct2, THEN conjunct2, THEN conjunct2, rule_format]
  have "(0::nat) < 3" "(1::nat) < 3" "(2::nat) < 3" by simp_all
  note b0 = b [OF this(1)] and b1 = b [OF this(2)] and b2 = b [OF this(3)]
  note r = t [THEN conjunct2, THEN conjunct2, THEN conjunct2, THEN conjunct1, rule_format, OF g]
  note p = t [THEN conjunct2, THEN conjunct2, THEN conjunct2, THEN conjunct2, rule_format, OF fg]
  from t have "js_ge (Fin 2) (Fin 0)"
    and "(Fin 3, Fin 2, Fin (- 1)) = vec3_add (Fin 1, Fin 2, Fin 3) (vec3_scale (Fin 1, Fin 0, Fin (- 2)) (Fin 2))"
    by blast+
  with h f g b0 b1 b2 r p show ?thesis by blast
qed











end
